theory Spec2Isabelle
  imports Complex_Main "HOL-Library.Word"
begin

unbundle bit_operations_syntax

section \<open>PowerVR Neon 250: data model\<close>

text \<open>
  The development follows the three translation units of the repository: the 3D pipeline
  (FIFO, vertex assembly, tile binning, rasteriser, DMA, completion timer) and the banked
  register file. C \<^verbatim>\<open>uint32_t\<close>, \<^verbatim>\<open>uint16_t\<close> and \<^verbatim>\<open>uint8_t\<close> are words; C \<^verbatim>\<open>int\<close> is
  \<^typ>\<open>int\<close> (the counters of the pipeline stay far below \<open>2^31\<close>); arrays are total
  stores indexed by the C index. A C \<^verbatim>\<open>float\<close> is modelled by the rational number it
  denotes, with exact arithmetic: binary32 rounding is not modelled. Vertex coordinates
  produced by the vertex command are multiples of \<open>1/1024\<close> and \<open>1/4096\<close>, on which the
  operations of vertex assembly and tile binning are exact in binary32 as well.
\<close>

type_synonym u8 = "8 word"
type_synonym u16 = "16 word"
type_synonym u32 = "32 word"
type_synonym cfloat = rat

text \<open>C integer division and remainder truncate towards zero.\<close>

definition c_div :: "int \<Rightarrow> int \<Rightarrow> int" where
  "c_div a b = sgn a * sgn b * (\<bar>a\<bar> div \<bar>b\<bar>)"

definition c_mod :: "int \<Rightarrow> int \<Rightarrow> int" where
  "c_mod a b = a - b * c_div a b"

text \<open>Conversion of a float to an integer type discards the fractional part.\<close>

definition f2i :: "cfloat \<Rightarrow> int" where
  "f2i q = (if 0 \<le> q then \<lfloor>q\<rfloor> else \<lceil>q\<rceil>)"

definition f2u32 :: "cfloat \<Rightarrow> u32" where
  "f2u32 q = word_of_int (f2i q)"

definition f2u16 :: "cfloat \<Rightarrow> u16" where
  "f2u16 q = word_of_int (f2i q)"

definition f2u8 :: "cfloat \<Rightarrow> u8" where
  "f2u8 q = word_of_int (f2i q)"

definition u2f :: "u32 \<Rightarrow> cfloat" where
  "u2f w = of_nat (unat w)"

record pvr_vertex_t =
  pos_x :: cfloat
  pos_y :: cfloat
  pos_z :: cfloat
  pos_w :: cfloat
  col_r :: cfloat
  col_g :: cfloat
  col_b :: cfloat
  col_a :: cfloat
  tex_u :: cfloat
  tex_v :: cfloat

record pvr_polygon_t =
  num_vertices :: int
  vertices :: "pvr_vertex_t list"
  texture_addr :: u32
  control_flags :: u32
  z_sort_value :: u32

record pvr_texture_t =
  t_width :: u32
  t_height :: u32
  t_format :: u32
  t_addr :: u32

record pvr_fifo_entry_t =
  fe_command :: u32
  fe_data :: u32

text \<open>
  A tile's \<^verbatim>\<open>polygon_list\<close> holds pointers into the polygon buffer; a pointer is modelled
  by the index of the polygon in that buffer.
\<close>

record pvr_tile_t =
  tile_x :: int
  tile_y :: int
  tile_width :: int
  tile_height :: int
  tile_polygon_list :: "int \<Rightarrow> int"
  tile_num_polygons :: int
  tile_max_polygons :: int

record pvr_reg_space_t =
  core :: "u32 \<Rightarrow> u32"
  poly :: "u32 \<Rightarrow> u32"
  tex :: "u32 \<Rightarrow> u32"
  render :: "u32 \<Rightarrow> u32"
  pci :: "u32 \<Rightarrow> u32"
  video :: "u32 \<Rightarrow> u32"
  dma :: "u32 \<Rightarrow> u32"
  interrupt :: "u32 \<Rightarrow> u32"

text \<open>
  The pipeline state. The last five fields are the parts of the parent device and of the
  host that the pipeline touches: the video memory (the framebuffer pointer is its base),
  its size, the CRT status byte, and the redraw counter. \<open>disp_start\<close> is assigned by the
  register file on a write to the framebuffer-address register. Memory allocation is
  assumed to succeed, so the register space, the tile grid and the Z-buffer are always
  present and the checks against NULL take their non-NULL branch. \<open>render_timer\<close> records
  whether the completion timer is armed.
\<close>

record pvr_3d_state_t =
  control_reg :: u32
  status_reg :: u32
  config_reg :: u32
  poly_control :: u32
  poly_status :: u32
  current_vertex :: int
  vertex_buffer :: "int \<Rightarrow> pvr_vertex_t"
  polygon_buffer :: "int \<Rightarrow> pvr_polygon_t"
  num_polygons :: int
  tex_control :: u32
  tex_addr :: u32
  tex_config :: u32
  tex_filter :: u32
  textures :: "int \<Rightarrow> pvr_texture_t"
  current_texture :: int
  render_control :: u32
  render_status :: u32
  z_compare :: u32
  blend_mode :: u32
  fifo :: "int \<Rightarrow> pvr_fifo_entry_t"
  fifo_read_ptr :: int
  fifo_write_ptr :: int
  fifo_entries :: int
  tiles :: "int \<Rightarrow> pvr_tile_t"
  num_tiles_x :: int
  num_tiles_y :: int
  tile_size :: int
  dma_control :: u32
  dma_src_addr :: u32
  dma_dest_addr :: u32
  dma_size :: u32
  dma_status :: u32
  fb_width :: u32
  fb_height :: u32
  fb_stride :: u32
  fb_format :: u32
  z_buffer :: "int \<Rightarrow> u16"
  render_timer :: bool
  registers :: pvr_reg_space_t
  disp_start :: u32
  memory_size :: u32
  vram :: "int \<Rightarrow> u8"
  cgastat :: u8
  fullchange :: int
  changeframecount :: int

subsection \<open>Constants of the 3D pipeline\<close>

definition PVR_3D_STAT_RUNNING :: u32 where [simp]: "PVR_3D_STAT_RUNNING = 1"
definition PVR_3D_STAT_BUSY :: u32 where [simp]: "PVR_3D_STAT_BUSY = 2"
definition PVR_3D_STAT_FIFO_EMPTY :: u32 where [simp]: "PVR_3D_STAT_FIFO_EMPTY = 8"
definition PVR_3D_STAT_FIFO_FULL :: u32 where [simp]: "PVR_3D_STAT_FIFO_FULL = 16"
definition PVR_3D_STAT_DMA_ACTIVE :: u32 where [simp]: "PVR_3D_STAT_DMA_ACTIVE = 32"

definition PVR_POLY_CTRL_ZBUFFER :: u32 where [simp]: "PVR_POLY_CTRL_ZBUFFER = 1"
definition PVR_POLY_CTRL_TEXTURE :: u32 where [simp]: "PVR_POLY_CTRL_TEXTURE = 2"
definition PVR_POLY_CTRL_GOURAUD :: u32 where [simp]: "PVR_POLY_CTRL_GOURAUD = 8"
definition PVR_POLY_CTRL_CULL_CW :: u32 where [simp]: "PVR_POLY_CTRL_CULL_CW = 64"
definition PVR_POLY_CTRL_CULL_CCW :: u32 where [simp]: "PVR_POLY_CTRL_CULL_CCW = 128"

definition PVR_MAX_POLYGONS :: int where [simp]: "PVR_MAX_POLYGONS = 2048"
definition PVR_FIFO_SIZE :: int where [simp]: "PVR_FIFO_SIZE = 4096"


section \<open>The 3D pipeline\<close>

subsection \<open>Command FIFO\<close>

definition pvr_3d_push_fifo :: "pvr_3d_state_t \<Rightarrow> u32 \<Rightarrow> u32 \<Rightarrow> pvr_3d_state_t" where
  "pvr_3d_push_fifo s cmd dat =
     (if fifo_entries s \<ge> PVR_FIFO_SIZE
      then s\<lparr>status_reg := status_reg s OR PVR_3D_STAT_FIFO_FULL\<rparr>
      else
        let s1 = s\<lparr>fifo := (fifo s)(fifo_write_ptr s := \<lparr>fe_command = cmd, fe_data = dat\<rparr>)\<rparr>;
            s2 = s1\<lparr>fifo_write_ptr := c_mod (fifo_write_ptr s1 + 1) PVR_FIFO_SIZE,
                    fifo_entries := fifo_entries s1 + 1\<rparr>
        in if fifo_entries s2 \<ge> PVR_FIFO_SIZE
           then s2\<lparr>status_reg := status_reg s2 OR PVR_3D_STAT_FIFO_FULL\<rparr>
           else s2)"

subsection \<open>Tile binning\<close>

definition tile_append :: "pvr_tile_t \<Rightarrow> int \<Rightarrow> pvr_tile_t" where
  "tile_append t p =
     (let t1 = (if tile_num_polygons t \<ge> tile_max_polygons t
                then t\<lparr>tile_max_polygons := tile_max_polygons t * 2\<rparr> else t)
      in t1\<lparr>tile_polygon_list := (tile_polygon_list t1)(tile_num_polygons t1 := p),
            tile_num_polygons := tile_num_polygons t1 + 1\<rparr>)"

definition bbox_step ::
  "pvr_polygon_t \<Rightarrow> int \<Rightarrow> cfloat \<times> cfloat \<times> cfloat \<times> cfloat \<Rightarrow> cfloat \<times> cfloat \<times> cfloat \<times> cfloat" where
  "bbox_step p i b =
     (case b of (min_x, min_y, max_x, max_y) \<Rightarrow>
        let v = vertices p ! nat i in
        (if pos_x v < min_x then pos_x v else min_x,
         if pos_y v < min_y then pos_y v else min_y,
         if pos_x v > max_x then pos_x v else max_x,
         if pos_y v > max_y then pos_y v else max_y))"

definition polygon_bbox :: "pvr_polygon_t \<Rightarrow> cfloat \<times> cfloat \<times> cfloat \<times> cfloat" where
  "polygon_bbox p =
     fold (bbox_step p) [1..num_vertices p - 1]
       (pos_x (vertices p ! 0), pos_y (vertices p ! 0), pos_x (vertices p ! 0), pos_y (vertices p ! 0))"

definition distribute_tile :: "int \<Rightarrow> int \<Rightarrow> int \<Rightarrow> pvr_3d_state_t \<Rightarrow> pvr_3d_state_t" where
  "distribute_tile p y x s =
     (let tile_idx = y * num_tiles_x s + x
      in s\<lparr>tiles := (tiles s)(tile_idx := tile_append (tiles s tile_idx) p)\<rparr>)"

text \<open>The polygon is passed as its index \<open>p\<close> in the polygon buffer.\<close>

definition pvr_3d_distribute_to_tiles :: "pvr_3d_state_t \<Rightarrow> int \<Rightarrow> pvr_3d_state_t" where
  "pvr_3d_distribute_to_tiles s p =
     (case polygon_bbox (polygon_buffer s p) of (min_x, min_y, max_x, max_y) \<Rightarrow>
        let start_tile_x = c_div (f2i min_x) (tile_size s);
            start_tile_y = c_div (f2i min_y) (tile_size s);
            end_tile_x = c_div (f2i (max_x + of_int (tile_size s) - 1)) (tile_size s);
            end_tile_y = c_div (f2i (max_y + of_int (tile_size s) - 1)) (tile_size s);
            start_tile_x = (if start_tile_x < 0 then 0 else start_tile_x);
            start_tile_y = (if start_tile_y < 0 then 0 else start_tile_y);
            end_tile_x = (if end_tile_x \<ge> num_tiles_x s then num_tiles_x s - 1 else end_tile_x);
            end_tile_y = (if end_tile_y \<ge> num_tiles_y s then num_tiles_y s - 1 else end_tile_y)
        in fold (\<lambda>y. fold (distribute_tile p y) [start_tile_x..end_tile_x])
             [start_tile_y..end_tile_y] s)"

subsection \<open>Polygon setup\<close>

definition z_sort_key :: "pvr_polygon_t \<Rightarrow> u32" where
  "z_sort_key p =
     f2u32 ((pos_z (vertices p ! 0) + pos_z (vertices p ! 1) + pos_z (vertices p ! 2)) * 1365)"

definition pvr_3d_setup_polygon :: "pvr_3d_state_t \<Rightarrow> pvr_3d_state_t" where
  "pvr_3d_setup_polygon s =
     (if num_polygons s \<ge> PVR_MAX_POLYGONS then s
      else
        let p = num_polygons s;
            p1 = (polygon_buffer s p)\<lparr>num_vertices := 3,
                   vertices := [vertex_buffer s 0, vertex_buffer s 1, vertex_buffer s 2]\<rparr>;
            p2 = p1\<lparr>texture_addr := t_addr (textures s (current_texture s)),
                    control_flags := poly_control s\<rparr>;
            p3 = p2\<lparr>z_sort_value := z_sort_key p2\<rparr>;
            s1 = s\<lparr>polygon_buffer := (polygon_buffer s)(p := p3)\<rparr>;
            s2 = pvr_3d_distribute_to_tiles s1 p
        in s2\<lparr>num_polygons := num_polygons s2 + 1\<rparr>)"


subsection \<open>Rasteriser\<close>

definition edge_function ::
  "cfloat \<Rightarrow> cfloat \<Rightarrow> cfloat \<Rightarrow> cfloat \<Rightarrow> cfloat \<Rightarrow> cfloat \<Rightarrow> cfloat" where
  "edge_function x0 y0 x1 y1 x2 y2 = (x2 - x0) * (y1 - y0) - (y2 - y0) * (x1 - x0)"

definition pack_argb :: "u8 \<Rightarrow> u8 \<Rightarrow> u8 \<Rightarrow> u8 \<Rightarrow> u32" where
  "pack_argb a r g b =
     push_bit 24 (ucast a) OR push_bit 16 (ucast r) OR push_bit 8 (ucast g) OR ucast b"

text \<open>The colour of a covered pixel with barycentric weights \<open>w0\<close>, \<open>w1\<close>, \<open>w2\<close>.\<close>

definition pixel_color :: "pvr_polygon_t \<Rightarrow> cfloat \<Rightarrow> cfloat \<Rightarrow> cfloat \<Rightarrow> u32" where
  "pixel_color p w0 w1 w2 =
     (let v0 = vertices p ! 0; v1 = vertices p ! 1; v2 = vertices p ! 2 in
      if control_flags p AND PVR_POLY_CTRL_TEXTURE \<noteq> 0 then
        (let tex_color = (0x00FFFFFF :: u32) in
         if control_flags p AND PVR_POLY_CTRL_GOURAUD \<noteq> 0 then
           (let r = w0 * col_r v0 + w1 * col_r v1 + w2 * col_r v2;
                g = w0 * col_g v0 + w1 * col_g v1 + w2 * col_g v2;
                b = w0 * col_b v0 + w1 * col_b v1 + w2 * col_b v2;
                a = w0 * col_a v0 + w1 * col_a v1 + w2 * col_a v2;
                tr = (ucast (drop_bit 16 tex_color AND 0xFF) :: u8);
                tg = (ucast (drop_bit 8 tex_color AND 0xFF) :: u8);
                tb = (ucast (tex_color AND 0xFF) :: u8);
                r = (r * of_nat (unat tr)) / 255;
                g = (g * of_nat (unat tg)) / 255;
                b = (b * of_nat (unat tb)) / 255
            in pack_argb (f2u8 (a * 255)) (f2u8 (r * 255)) (f2u8 (g * 255)) (f2u8 (b * 255)))
         else tex_color)
      else if control_flags p AND PVR_POLY_CTRL_GOURAUD \<noteq> 0 then
        (let r = w0 * col_r v0 + w1 * col_r v1 + w2 * col_r v2;
             g = w0 * col_g v0 + w1 * col_g v1 + w2 * col_g v2;
             b = w0 * col_b v0 + w1 * col_b v1 + w2 * col_b v2;
             a = w0 * col_a v0 + w1 * col_a v1 + w2 * col_a v2
         in pack_argb (f2u8 (a * 255)) (f2u8 (r * 255)) (f2u8 (g * 255)) (f2u8 (b * 255)))
      else
        pack_argb (f2u8 (col_a v0 * 255)) (f2u8 (col_r v0 * 255))
                  (f2u8 (col_g v0 * 255)) (f2u8 (col_b v0 * 255)))"

text \<open>
  The write of one pixel, by framebuffer depth. The 16-bit and 32-bit stores go through a
  pointer cast; they are modelled byte by byte in little-endian order.
\<close>

definition write_pixel :: "pvr_3d_state_t \<Rightarrow> int \<Rightarrow> u32 \<Rightarrow> pvr_3d_state_t" where
  "write_pixel s offset color =
     (if fb_format s = 16 then
        (let r = (drop_bit 3 (ucast (drop_bit 16 color AND 0xFF)) :: u16);
             g = (drop_bit 2 (ucast (drop_bit 8 color AND 0xFF)) :: u16);
             b = (drop_bit 3 (ucast (color AND 0xFF)) :: u16);
             pixel = push_bit 11 r OR push_bit 5 g OR b
         in s\<lparr>vram := (vram s)(offset * 2 := ucast pixel,
                                 offset * 2 + 1 := ucast (drop_bit 8 pixel))\<rparr>)
      else if fb_format s = 24 then
        s\<lparr>vram := (vram s)(offset * 3 + 0 := ucast (color AND 0xFF),
                            offset * 3 + 1 := ucast (drop_bit 8 color AND 0xFF),
                            offset * 3 + 2 := ucast (drop_bit 16 color AND 0xFF))\<rparr>
      else if fb_format s = 32 then
        s\<lparr>vram := (vram s)(offset * 4 := ucast color,
                            offset * 4 + 1 := ucast (drop_bit 8 color),
                            offset * 4 + 2 := ucast (drop_bit 16 color),
                            offset * 4 + 3 := ucast (drop_bit 24 color))\<rparr>
      else s)"

text \<open>Colour computation and framebuffer write of a pixel that passed the tests.\<close>

definition shade_pixel ::
  "pvr_polygon_t \<Rightarrow> cfloat \<Rightarrow> cfloat \<Rightarrow> cfloat \<Rightarrow> int \<Rightarrow> int \<Rightarrow> pvr_3d_state_t \<Rightarrow> pvr_3d_state_t" where
  "shade_pixel p w0 w1 w2 y x s =
     (let color = pixel_color p w0 w1 w2;
          offset = sint (word_of_int y * fb_stride s + word_of_int x :: u32)
      in write_pixel s offset color)"

text \<open>
  The depth of a pixel: the interpolated Z of the three vertices, converted to 16-bit
  fixed point.
\<close>

definition pixel_depth :: "pvr_polygon_t \<Rightarrow> cfloat \<Rightarrow> cfloat \<Rightarrow> cfloat \<Rightarrow> u16" where
  "pixel_depth p w0 w1 w2 =
     (let z = w0 * pos_z (vertices p ! 0) + w1 * pos_z (vertices p ! 1)
              + w2 * pos_z (vertices p ! 2)
      in f2u16 (z * 65535))"

definition z_index :: "pvr_3d_state_t \<Rightarrow> int \<Rightarrow> int \<Rightarrow> int" where
  "z_index s y x = uint (word_of_int y * fb_width s + word_of_int x :: u32)"

text \<open>The part of the loop body that follows the coverage test.\<close>

definition covered_pixel ::
  "pvr_polygon_t \<Rightarrow> cfloat \<Rightarrow> cfloat \<Rightarrow> cfloat \<Rightarrow> int \<Rightarrow> int \<Rightarrow> pvr_3d_state_t \<Rightarrow> pvr_3d_state_t" where
  "covered_pixel p w0 w1 w2 y x s =
     (let depth = pixel_depth p w0 w1 w2 in
      if control_flags p AND PVR_POLY_CTRL_ZBUFFER \<noteq> 0 then
        (if depth > z_buffer s (z_index s y x) then s
         else shade_pixel p w0 w1 w2 y x
                (s\<lparr>z_buffer := (z_buffer s)(z_index s y x := depth)\<rparr>))
      else shade_pixel p w0 w1 w2 y x s)"

text \<open>
  The body of the inner loop of \<^verbatim>\<open>pvr_3d_draw_triangle\<close>, for the pixel \<open>(x, y)\<close>: first
  the three barycentric weights of the pixel centre, then the coverage test.
\<close>

definition pixel_weights ::
  "pvr_polygon_t \<Rightarrow> cfloat \<Rightarrow> int \<Rightarrow> int \<Rightarrow> cfloat \<times> cfloat \<times> cfloat" where
  "pixel_weights p inv_area y x =
     (let x0 = pos_x (vertices p ! 0); y0 = pos_y (vertices p ! 0);
          x1 = pos_x (vertices p ! 1); y1 = pos_y (vertices p ! 1);
          x2 = pos_x (vertices p ! 2); y2 = pos_y (vertices p ! 2);
          w0 = edge_function x1 y1 x2 y2 (of_int x + 1/2) (of_int y + 1/2) * inv_area;
          w1 = edge_function x2 y2 x0 y0 (of_int x + 1/2) (of_int y + 1/2) * inv_area;
          w2 = edge_function x0 y0 x1 y1 (of_int x + 1/2) (of_int y + 1/2) * inv_area
      in (w0, w1, w2))"

definition draw_pixel ::
  "pvr_polygon_t \<Rightarrow> cfloat \<Rightarrow> int \<Rightarrow> int \<Rightarrow> pvr_3d_state_t \<Rightarrow> pvr_3d_state_t" where
  "draw_pixel p inv_area y x s =
     (case pixel_weights p inv_area y x of (w0, w1, w2) \<Rightarrow>
        if w0 < 0 \<or> w1 < 0 \<or> w2 < 0 then s
        else covered_pixel p w0 w1 w2 y x s)"

definition pvr_3d_draw_triangle :: "pvr_3d_state_t \<Rightarrow> int \<Rightarrow> pvr_3d_state_t" where
  "pvr_3d_draw_triangle s pidx =
     (let p = polygon_buffer s pidx;
          x0 = pos_x (vertices p ! 0); y0 = pos_y (vertices p ! 0);
          x1 = pos_x (vertices p ! 1); y1 = pos_y (vertices p ! 1);
          x2 = pos_x (vertices p ! 2); y2 = pos_y (vertices p ! 2);
          minX = \<lfloor>min (min x0 x1) x2\<rfloor>;
          minY = \<lfloor>min (min y0 y1) y2\<rfloor>;
          maxX = \<lceil>max (max x0 x1) x2\<rceil>;
          maxY = \<lceil>max (max y0 y1) y2\<rceil>;
          minX = (if minX < 0 then 0 else minX);
          minY = (if minY < 0 then 0 else minY);
          maxX = (if (word_of_int maxX :: u32) > fb_width s then sint (fb_width s) else maxX);
          maxY = (if (word_of_int maxY :: u32) > fb_height s then sint (fb_height s) else maxY);
          area = edge_function x0 y0 x1 y1 x2 y2
      in if \<bar>area\<bar> < 1 / 1000000 then s
         else
           let inv_area = 1 / area
           in fold (\<lambda>y. fold (draw_pixel p inv_area y) [minX..maxX - 1]) [minY..maxY - 1] s)"

definition pvr_3d_render_polygon :: "pvr_3d_state_t \<Rightarrow> int \<Rightarrow> pvr_3d_state_t" where
  "pvr_3d_render_polygon s pidx =
     (let p = polygon_buffer s pidx in
      if control_flags p AND (PVR_POLY_CTRL_CULL_CW OR PVR_POLY_CTRL_CULL_CCW) \<noteq> 0 then
        (let ax = pos_x (vertices p ! 1) - pos_x (vertices p ! 0);
             ay = pos_y (vertices p ! 1) - pos_y (vertices p ! 0);
             bx = pos_x (vertices p ! 2) - pos_x (vertices p ! 0);
             b_y = pos_y (vertices p ! 2) - pos_y (vertices p ! 0);
             cross = ax * b_y - ay * bx
         in if (cross < 0 \<and> control_flags p AND PVR_POLY_CTRL_CULL_CCW \<noteq> 0) \<or>
               (cross > 0 \<and> control_flags p AND PVR_POLY_CTRL_CULL_CW \<noteq> 0)
            then s
            else pvr_3d_draw_triangle s pidx)
      else pvr_3d_draw_triangle s pidx)"

text \<open>One comparison of the bubble sort of a tile's polygon list (largest key first).\<close>

definition sort_step :: "int \<Rightarrow> int \<Rightarrow> pvr_3d_state_t \<Rightarrow> pvr_3d_state_t" where
  "sort_step ti j s =
     (let t = tiles s ti; l = tile_polygon_list t in
      if z_sort_value (polygon_buffer s (l j)) < z_sort_value (polygon_buffer s (l (j + 1)))
      then s\<lparr>tiles := (tiles s)(ti := t\<lparr>tile_polygon_list := l(j := l (j + 1), j + 1 := l j)\<rparr>)\<rparr>
      else s)"

text \<open>The tile is passed as its index \<open>ti\<close> in the tile array.\<close>

definition pvr_3d_render_tile :: "pvr_3d_state_t \<Rightarrow> int \<Rightarrow> pvr_3d_state_t" where
  "pvr_3d_render_tile s ti =
     (let n = tile_num_polygons (tiles s ti);
          s1 = fold (\<lambda>i. fold (sort_step ti) [0..n - i - 1 - 1]) [0..n - 1 - 1] s
      in fold (\<lambda>i s. pvr_3d_render_polygon s (tile_polygon_list (tiles s ti) i)) [0..n - 1] s1)"

definition render_scene_tile :: "int \<Rightarrow> int \<Rightarrow> pvr_3d_state_t \<Rightarrow> pvr_3d_state_t" where
  "render_scene_tile y x s =
     (let tile_idx = y * num_tiles_x s + x in
      if tile_num_polygons (tiles s tile_idx) > 0 then pvr_3d_render_tile s tile_idx else s)"

definition clear_tile_count :: "int \<Rightarrow> pvr_3d_state_t \<Rightarrow> pvr_3d_state_t" where
  "clear_tile_count i s = s\<lparr>tiles := (tiles s)(i := (tiles s i)\<lparr>tile_num_polygons := 0\<rparr>)\<rparr>"

text \<open>
  \<^verbatim>\<open>memset\<close> of the Z-buffer with \<open>0xFF\<close> over \<open>fb_width * fb_height\<close> entries (the product
  is taken in 32 bits).
\<close>

definition clear_z_buffer :: "pvr_3d_state_t \<Rightarrow> pvr_3d_state_t" where
  "clear_z_buffer s =
     s\<lparr>z_buffer := (\<lambda>i. if 0 \<le> i \<and> i < uint (fb_width s * fb_height s) then 0xFFFF
                         else z_buffer s i)\<rparr>"

definition pvr_3d_render_scene :: "pvr_3d_state_t \<Rightarrow> pvr_3d_state_t" where
  "pvr_3d_render_scene s =
     (let s1 = clear_z_buffer s;
          s2 = fold (\<lambda>y. fold (render_scene_tile y) [0..num_tiles_x s1 - 1])
                 [0..num_tiles_y s1 - 1] s1;
          s3 = s2\<lparr>num_polygons := 0\<rparr>;
          s4 = fold clear_tile_count [0..num_tiles_x s3 * num_tiles_y s3 - 1] s3
      in s4\<lparr>fullchange := changeframecount s4\<rparr>)"


subsection \<open>Command dispatch and FIFO drain\<close>

text \<open>The \<^verbatim>\<open>switch (command)\<close> of \<^verbatim>\<open>pvr_3d_process_fifo\<close>, for one FIFO entry.\<close>

definition fifo_dispatch :: "pvr_3d_state_t \<Rightarrow> u32 \<Rightarrow> u32 \<Rightarrow> pvr_3d_state_t" where
  "fifo_dispatch s command dat =
     (if command = 0x01 then
        (let x = u2f (drop_bit 0 dat AND 0x3ff) / 1024 * u2f (fb_width s);
             y = u2f (drop_bit 10 dat AND 0x3ff) / 1024 * u2f (fb_height s);
             z = u2f (drop_bit 20 dat AND 0xfff) / 4096;
             cv = current_vertex s;
             s1 = s\<lparr>vertex_buffer := (vertex_buffer s)
                       (cv := (vertex_buffer s cv)\<lparr>pos_x := x, pos_y := y, pos_z := z, pos_w := 1\<rparr>)\<rparr>;
             s2 = s1\<lparr>current_vertex := current_vertex s1 + 1\<rparr>
         in if current_vertex s2 \<ge> 3
            then (pvr_3d_setup_polygon s2)\<lparr>current_vertex := 0\<rparr>
            else s2)
      else if command = 0x02 then
        (let tex_cmd_type = (ucast (drop_bit 24 dat AND 0xff) :: u8);
             ct = current_texture s;
             cv = current_vertex s
         in if tex_cmd_type = 0x01 then
              s\<lparr>textures := (textures s)(ct := (textures s ct)\<lparr>t_addr := dat AND 0xffffff\<rparr>)\<rparr>
            else if tex_cmd_type = 0x02 then
              (let u = u2f (drop_bit 0 dat AND 0xfff) / 4096;
                   v = u2f (drop_bit 12 dat AND 0xfff) / 4096
               in s\<lparr>vertex_buffer := (vertex_buffer s)
                       (cv := (vertex_buffer s cv)\<lparr>tex_u := u, tex_v := v\<rparr>)\<rparr>)
            else if tex_cmd_type = 0x03 then
              s\<lparr>textures := (textures s)(ct := (textures s ct)\<lparr>t_format := dat AND 0xffffff\<rparr>)\<rparr>
            else s)
      else if command = 0x03 then
        (let r = u2f (drop_bit 0 dat AND 0xff) / 255;
             g = u2f (drop_bit 8 dat AND 0xff) / 255;
             b = u2f (drop_bit 16 dat AND 0xff) / 255;
             a = u2f (drop_bit 24 dat AND 0xff) / 255;
             cv = current_vertex s
         in s\<lparr>vertex_buffer := (vertex_buffer s)
                 (cv := (vertex_buffer s cv)\<lparr>col_r := r, col_g := g, col_b := b, col_a := a\<rparr>)\<rparr>)
      else if command = 0x10 then
        (let s1 = s\<lparr>status_reg := status_reg s OR PVR_3D_STAT_RUNNING\<rparr>;
             s2 = s1\<lparr>status_reg := status_reg s1 OR PVR_3D_STAT_BUSY\<rparr>;
             s3 = pvr_3d_render_scene s2
         in s3\<lparr>render_timer := True\<rparr>)
      else s)"

text \<open>The bookkeeping of one iteration of the drain loop, after the command ran.\<close>

definition fifo_advance :: "pvr_3d_state_t \<Rightarrow> pvr_3d_state_t" where
  "fifo_advance s =
     (let s1 = s\<lparr>fifo_read_ptr := c_mod (fifo_read_ptr s + 1) PVR_FIFO_SIZE,
                  fifo_entries := fifo_entries s - 1\<rparr>;
          s2 = s1\<lparr>status_reg := status_reg s1 AND NOT PVR_3D_STAT_FIFO_FULL\<rparr>
      in if fifo_entries s2 = 0
         then s2\<lparr>status_reg := status_reg s2 OR PVR_3D_STAT_FIFO_EMPTY\<rparr>
         else s2)"

definition fifo_step :: "pvr_3d_state_t \<Rightarrow> pvr_3d_state_t" where
  "fifo_step s =
     (let entry = fifo s (fifo_read_ptr s)
      in fifo_advance (fifo_dispatch s (fe_command entry) (fe_data entry)))"

text \<open>
  The \<^verbatim>\<open>while\<close> loop of \<^verbatim>\<open>pvr_3d_process_fifo\<close>; the second component is the local
  counter \<^verbatim>\<open>commands_processed\<close>.
\<close>

function process_fifo_loop :: "pvr_3d_state_t \<Rightarrow> int \<Rightarrow> pvr_3d_state_t \<times> int" where
  "process_fifo_loop s commands_processed =
     (if fifo_entries s > 0 \<and> commands_processed < 32
      then process_fifo_loop (fifo_step s) (commands_processed + 1)
      else (s, commands_processed))"
  by pat_completeness auto
termination
  by (relation "measure (\<lambda>(s, n). nat (32 - n))") auto

declare process_fifo_loop.simps [simp del]

definition pvr_3d_process_fifo :: "pvr_3d_state_t \<Rightarrow> pvr_3d_state_t" where
  "pvr_3d_process_fifo s = fst (process_fifo_loop s 0)"

definition pvr_3d_process_command :: "pvr_3d_state_t \<Rightarrow> u32 \<Rightarrow> u32 \<Rightarrow> pvr_3d_state_t" where
  "pvr_3d_process_command s command dat =
     (let s1 = pvr_3d_push_fifo s command dat;
          s2 = (if fifo_entries s1 > 0
                then s1\<lparr>status_reg := status_reg s1 AND NOT PVR_3D_STAT_FIFO_EMPTY\<rparr> else s1)
      in if status_reg s2 AND PVR_3D_STAT_RUNNING = 0 then pvr_3d_process_fifo s2 else s2)"

section \<open>The register file\<close>

definition PVR_CORE_ID :: u32 where [simp]: "PVR_CORE_ID = 0x000"
definition PVR_CORE_REVISION :: u32 where [simp]: "PVR_CORE_REVISION = 0x004"
definition PVR_CORE_RESET :: u32 where [simp]: "PVR_CORE_RESET = 0x008"
definition PVR_CORE_STATUS :: u32 where [simp]: "PVR_CORE_STATUS = 0x00C"
definition PVR_CORE_CONFIG :: u32 where [simp]: "PVR_CORE_CONFIG = 0x010"
definition PVR_POLY_CONTROL :: u32 where [simp]: "PVR_POLY_CONTROL = 0x000"
definition PVR_POLY_VERTEX :: u32 where [simp]: "PVR_POLY_VERTEX = 0x008"
definition PVR_POLY_NORMAL :: u32 where [simp]: "PVR_POLY_NORMAL = 0x00C"
definition PVR_POLY_COLOR :: u32 where [simp]: "PVR_POLY_COLOR = 0x010"
definition PVR_POLY_TEXCOORD :: u32 where [simp]: "PVR_POLY_TEXCOORD = 0x014"
definition PVR_TEX_CONTROL :: u32 where [simp]: "PVR_TEX_CONTROL = 0x000"
definition PVR_TEX_ADDR :: u32 where [simp]: "PVR_TEX_ADDR = 0x008"
definition PVR_TEX_FORMAT :: u32 where [simp]: "PVR_TEX_FORMAT = 0x00C"
definition PVR_TEX_FILTER :: u32 where [simp]: "PVR_TEX_FILTER = 0x010"
definition PVR_TEX_WRAP :: u32 where [simp]: "PVR_TEX_WRAP = 0x014"
definition PVR_RENDER_CONTROL :: u32 where [simp]: "PVR_RENDER_CONTROL = 0x000"
definition PVR_RENDER_ZBUFFER :: u32 where [simp]: "PVR_RENDER_ZBUFFER = 0x008"
definition PVR_RENDER_BLEND :: u32 where [simp]: "PVR_RENDER_BLEND = 0x00C"
definition PVR_VIDEO_CONTROL :: u32 where [simp]: "PVR_VIDEO_CONTROL = 0x000"
definition PVR_VIDEO_FBADDR :: u32 where [simp]: "PVR_VIDEO_FBADDR = 0x018"
definition PVR_VIDEO_STRIDE :: u32 where [simp]: "PVR_VIDEO_STRIDE = 0x01C"
definition PVR_DMA_CONTROL :: u32 where [simp]: "PVR_DMA_CONTROL = 0x000"
definition PVR_DMA_STATUS :: u32 where [simp]: "PVR_DMA_STATUS = 0x004"
definition PVR_DMA_SRC :: u32 where [simp]: "PVR_DMA_SRC = 0x008"
definition PVR_DMA_DEST :: u32 where [simp]: "PVR_DMA_DEST = 0x00C"
definition PVR_DMA_COUNT :: u32 where [simp]: "PVR_DMA_COUNT = 0x010"
definition PVR_INT_STATUS :: u32 where [simp]: "PVR_INT_STATUS = 0x000"
definition PVR_INT_MASK :: u32 where [simp]: "PVR_INT_MASK = 0x004"
definition PVR_INT_CLEAR :: u32 where [simp]: "PVR_INT_CLEAR = 0x008"

definition PVR_CHIP_ID :: u32 where [simp]: "PVR_CHIP_ID = 0x004E4543"
definition PVR_CHIP_REVISION :: u32 where [simp]: "PVR_CHIP_REVISION = 0x00000100"

definition PVR_RESET_CORE :: u32 where [simp]: "PVR_RESET_CORE = 1"
definition PVR_RESET_GEO :: u32 where [simp]: "PVR_RESET_GEO = 2"
definition PVR_RESET_TEX :: u32 where [simp]: "PVR_RESET_TEX = 4"
definition PVR_RESET_RENDER :: u32 where [simp]: "PVR_RESET_RENDER = 8"
definition PVR_RESET_DMA :: u32 where [simp]: "PVR_RESET_DMA = 32"

definition PVR_STAT_BUSY :: u32 where [simp]: "PVR_STAT_BUSY = 1"
definition PVR_STAT_RENDER_BUSY :: u32 where [simp]: "PVR_STAT_RENDER_BUSY = 8"
definition PVR_STAT_DMA_BUSY :: u32 where [simp]: "PVR_STAT_DMA_BUSY = 16"
definition PVR_STAT_VBLANK :: u32 where [simp]: "PVR_STAT_VBLANK = 32"
definition PVR_STAT_FIFO_EMPTY :: u32 where [simp]: "PVR_STAT_FIFO_EMPTY = 64"

definition PVR_RENDER_START :: u32 where [simp]: "PVR_RENDER_START = 1"
definition PVR_RENDER_RESET :: u32 where [simp]: "PVR_RENDER_RESET = 4"
definition PVR_DMA_START :: u32 where [simp]: "PVR_DMA_START = 1"
definition PVR_DMA_RESET :: u32 where [simp]: "PVR_DMA_RESET = 4"
definition PVR_DMA_BUSY :: u32 where [simp]: "PVR_DMA_BUSY = 1"
definition PVR_DMA_DONE :: u32 where [simp]: "PVR_DMA_DONE = 2"
definition PVR_INT_DMA_DONE :: u32 where [simp]: "PVR_INT_DMA_DONE = 4"

text \<open>Stores into the eight banks of the register space of a state.\<close>

definition set_core :: "u32 \<Rightarrow> u32 \<Rightarrow> pvr_3d_state_t \<Rightarrow> pvr_3d_state_t" where
  "set_core i v s = s\<lparr>registers := (registers s)\<lparr>core := (core (registers s))(i := v)\<rparr>\<rparr>"

definition set_poly :: "u32 \<Rightarrow> u32 \<Rightarrow> pvr_3d_state_t \<Rightarrow> pvr_3d_state_t" where
  "set_poly i v s = s\<lparr>registers := (registers s)\<lparr>poly := (poly (registers s))(i := v)\<rparr>\<rparr>"

definition set_tex :: "u32 \<Rightarrow> u32 \<Rightarrow> pvr_3d_state_t \<Rightarrow> pvr_3d_state_t" where
  "set_tex i v s = s\<lparr>registers := (registers s)\<lparr>tex := (tex (registers s))(i := v)\<rparr>\<rparr>"

definition set_render :: "u32 \<Rightarrow> u32 \<Rightarrow> pvr_3d_state_t \<Rightarrow> pvr_3d_state_t" where
  "set_render i v s = s\<lparr>registers := (registers s)\<lparr>render := (render (registers s))(i := v)\<rparr>\<rparr>"

definition set_pci :: "u32 \<Rightarrow> u32 \<Rightarrow> pvr_3d_state_t \<Rightarrow> pvr_3d_state_t" where
  "set_pci i v s = s\<lparr>registers := (registers s)\<lparr>pci := (pci (registers s))(i := v)\<rparr>\<rparr>"

definition set_video :: "u32 \<Rightarrow> u32 \<Rightarrow> pvr_3d_state_t \<Rightarrow> pvr_3d_state_t" where
  "set_video i v s = s\<lparr>registers := (registers s)\<lparr>video := (video (registers s))(i := v)\<rparr>\<rparr>"

definition set_dma :: "u32 \<Rightarrow> u32 \<Rightarrow> pvr_3d_state_t \<Rightarrow> pvr_3d_state_t" where
  "set_dma i v s = s\<lparr>registers := (registers s)\<lparr>dma := (dma (registers s))(i := v)\<rparr>\<rparr>"

definition set_interrupt :: "u32 \<Rightarrow> u32 \<Rightarrow> pvr_3d_state_t \<Rightarrow> pvr_3d_state_t" where
  "set_interrupt i v s =
     s\<lparr>registers := (registers s)\<lparr>interrupt := (interrupt (registers s))(i := v)\<rparr>\<rparr>"

text \<open>\<^verbatim>\<open>memset\<close> of one bank with zero.\<close>

definition clear_poly :: "pvr_3d_state_t \<Rightarrow> pvr_3d_state_t" where
  "clear_poly s = s\<lparr>registers := (registers s)\<lparr>poly := (\<lambda>_. 0)\<rparr>\<rparr>"

definition clear_tex :: "pvr_3d_state_t \<Rightarrow> pvr_3d_state_t" where
  "clear_tex s = s\<lparr>registers := (registers s)\<lparr>tex := (\<lambda>_. 0)\<rparr>\<rparr>"

definition clear_render :: "pvr_3d_state_t \<Rightarrow> pvr_3d_state_t" where
  "clear_render s = s\<lparr>registers := (registers s)\<lparr>render := (\<lambda>_. 0)\<rparr>\<rparr>"

definition clear_dma :: "pvr_3d_state_t \<Rightarrow> pvr_3d_state_t" where
  "clear_dma s = s\<lparr>registers := (registers s)\<lparr>dma := (\<lambda>_. 0)\<rparr>\<rparr>"

text \<open>The register space after \<^verbatim>\<open>pvr_reg_reset\<close> (and after \<^verbatim>\<open>pvr_reg_init\<close>).\<close>

definition default_registers :: pvr_reg_space_t where
  "default_registers =
     \<lparr>core = (\<lambda>_. 0)(PVR_CORE_ID div 4 := PVR_CHIP_ID,
                      PVR_CORE_REVISION div 4 := PVR_CHIP_REVISION,
                      PVR_CORE_STATUS div 4 := PVR_STAT_FIFO_EMPTY,
                      PVR_CORE_CONFIG div 4 := 0x00000002 OR 0x00000008),
      poly = (\<lambda>_. 0)(PVR_POLY_CONTROL div 4 := 0),
      tex = (\<lambda>_. 0)(PVR_TEX_FORMAT div 4 := 0x00000000 OR 0x00000050,
                     PVR_TEX_FILTER div 4 := 0x00000001,
                     PVR_TEX_WRAP div 4 := push_bit 0 0x00000001 OR push_bit 2 0x00000001),
      render = (\<lambda>_. 0)(PVR_RENDER_ZBUFFER div 4 := 0x00000001 OR 0x00000010 OR 0x00000000,
                        PVR_RENDER_BLEND div 4 := push_bit 0 0x00000002 OR push_bit 4 0x00000003),
      pci = (\<lambda>_. 0),
      video = (\<lambda>_. 0),
      dma = (\<lambda>_. 0)(PVR_DMA_CONTROL div 4 := 0),
      interrupt = (\<lambda>_. 0)(PVR_INT_STATUS div 4 := 0, PVR_INT_MASK div 4 := 0)\<rparr>"

definition pvr_reg_reset :: "pvr_3d_state_t \<Rightarrow> pvr_3d_state_t" where
  "pvr_reg_reset s = s\<lparr>registers := default_registers\<rparr>"

definition pvr_3d_reset :: "pvr_3d_state_t \<Rightarrow> pvr_3d_state_t" where
  "pvr_3d_reset s =
     (let s1 = s\<lparr>control_reg := 0, status_reg := PVR_3D_STAT_FIFO_EMPTY, config_reg := 0,
                  poly_control := 0, poly_status := 0, current_vertex := 0, num_polygons := 0,
                  tex_control := 0, tex_addr := 0, tex_config := 0, tex_filter := 0,
                  current_texture := 0,
                  render_control := 0, render_status := 0, z_compare := 0, blend_mode := 0,
                  fifo_read_ptr := 0, fifo_write_ptr := 0, fifo_entries := 0,
                  dma_control := 0, dma_src_addr := 0, dma_dest_addr := 0, dma_size := 0,
                  dma_status := 0\<rparr>;
          s2 = pvr_reg_reset s1
      in fold clear_tile_count [0..num_tiles_x s2 * num_tiles_y s2 - 1] s2)"


definition pvr_reg_dma_complete :: "pvr_3d_state_t \<Rightarrow> pvr_3d_state_t" where
  "pvr_reg_dma_complete s =
     (let s1 = set_dma (PVR_DMA_STATUS div 4)
                 (dma (registers s) (PVR_DMA_STATUS div 4) AND NOT PVR_DMA_BUSY) s;
          s2 = set_dma (PVR_DMA_STATUS div 4)
                 (dma (registers s1) (PVR_DMA_STATUS div 4) OR PVR_DMA_DONE) s1;
          s3 = set_core (PVR_CORE_STATUS div 4)
                 (core (registers s2) (PVR_CORE_STATUS div 4) AND NOT PVR_STAT_DMA_BUSY) s2
      in if interrupt (registers s3) (PVR_INT_MASK div 4) AND PVR_INT_DMA_DONE \<noteq> 0
         then set_interrupt (PVR_INT_STATUS div 4)
                (interrupt (registers s3) (PVR_INT_STATUS div 4) OR PVR_INT_DMA_DONE) s3
         else s3)"

subsection \<open>DMA engine and completion timer\<close>

text \<open>\<^verbatim>\<open>memcpy\<close> of \<open>n\<close> bytes inside the video memory.\<close>

definition vram_copy :: "(int \<Rightarrow> u8) \<Rightarrow> int \<Rightarrow> int \<Rightarrow> int \<Rightarrow> int \<Rightarrow> u8" where
  "vram_copy m dest src n = (\<lambda>i. if dest \<le> i \<and> i < dest + n then m (src + (i - dest)) else m i)"

text \<open>The bounds check of the transfer, on the clamped size.\<close>

definition dma_in_range :: "pvr_3d_state_t \<Rightarrow> u32 \<Rightarrow> u32 \<Rightarrow> u32 \<Rightarrow> bool" where
  "dma_in_range s src_addr dest_addr len \<longleftrightarrow>
     src_addr < memory_size s \<and> dest_addr < memory_size s \<and>
     dest_addr + len \<le> memory_size s"

definition dma_clamp_size :: "u32 \<Rightarrow> u32" where
  "dma_clamp_size len = (if len > 16 * 1024 * 1024 then 16 * 1024 * 1024 else len)"

definition pvr_3d_dma_transfer :: "pvr_3d_state_t \<Rightarrow> pvr_3d_state_t" where
  "pvr_3d_dma_transfer s =
     (let src_addr = dma_src_addr s;
          dest_addr = dma_dest_addr s;
          len = dma_size s;
          s1 = pvr_reg_dma_complete s;
          len = dma_clamp_size len;
          s2 = (if dma_in_range s1 src_addr dest_addr len
                then s1\<lparr>vram := vram_copy (vram s1) (uint dest_addr) (uint src_addr) (uint len)\<rparr>
                else s1);
          s3 = s2\<lparr>status_reg := status_reg s2 AND NOT PVR_3D_STAT_DMA_ACTIVE\<rparr>;
          s4 = s3\<lparr>dma_status := dma_status s3 AND NOT 1\<rparr>
      in s4\<lparr>dma_status := dma_status s4 OR 2\<rparr>)"



subsection \<open>Register write\<close>

text \<open>
  \<^verbatim>\<open>pvr_reg_write\<close> is one function with a \<^verbatim>\<open>switch\<close> on the register set; each case of
  that switch is a definition here, with the arguments \<open>reg_addr\<close>, \<open>reg_index\<close> and \<open>val\<close>.
  Log output is not part of the state.
\<close>

definition reg_write_core :: "pvr_3d_state_t \<Rightarrow> u32 \<Rightarrow> u32 \<Rightarrow> u32 \<Rightarrow> pvr_3d_state_t" where
  "reg_write_core s reg_addr reg_index val =
     (if reg_addr = PVR_CORE_RESET then
        (if val AND PVR_RESET_CORE \<noteq> 0 then pvr_3d_reset (pvr_reg_reset s)
         else
           let s1 = set_core reg_index val s;
               s2 = (if val AND PVR_RESET_GEO \<noteq> 0 then clear_poly s1 else s1);
               s3 = (if val AND PVR_RESET_TEX \<noteq> 0 then clear_tex s2 else s2);
               s4 = (if val AND PVR_RESET_RENDER \<noteq> 0 then clear_render s3 else s3)
           in if val AND PVR_RESET_DMA \<noteq> 0 then clear_dma s4 else s4)
      else if reg_addr = PVR_CORE_STATUS then s
      else if reg_addr = PVR_CORE_CONFIG then
        (let s1 = set_core reg_index val s in
         if val AND 0x3 = 0x00000000 then s1\<lparr>tile_size := 8\<rparr>
         else if val AND 0x3 = 0x00000001 then s1\<lparr>tile_size := 16\<rparr>
         else if val AND 0x3 = 0x00000002 then s1\<lparr>tile_size := 32\<rparr>
         else if val AND 0x3 = 0x00000003 then s1\<lparr>tile_size := 64\<rparr>
         else s1)
      else set_core reg_index val s)"

definition reg_write_poly :: "pvr_3d_state_t \<Rightarrow> u32 \<Rightarrow> u32 \<Rightarrow> u32 \<Rightarrow> pvr_3d_state_t" where
  "reg_write_poly s reg_addr reg_index val =
     (if reg_addr = PVR_POLY_CONTROL then (set_poly reg_index val s)\<lparr>poly_control := val\<rparr>
      else if reg_addr = PVR_POLY_VERTEX then
        pvr_3d_process_command (set_poly reg_index val s) 0x01 val
      else if reg_addr = PVR_POLY_NORMAL then
        pvr_3d_process_command (set_poly reg_index val s) 0x03 val
      else if reg_addr = PVR_POLY_COLOR then
        pvr_3d_process_command (set_poly reg_index val s) 0x04 val
      else if reg_addr = PVR_POLY_TEXCOORD then
        pvr_3d_process_command (set_poly reg_index val s) 0x02 val
      else set_poly reg_index val s)"

definition tex_size_of_code :: "u32 \<Rightarrow> u32" where
  "tex_size_of_code size_code =
     (if size_code = 0 then 8 else if size_code = 1 then 16 else if size_code = 2 then 32
      else if size_code = 3 then 64 else if size_code = 4 then 128
      else if size_code = 5 then 256 else if size_code = 6 then 512
      else if size_code = 7 then 1024 else 256)"

definition reg_write_tex :: "pvr_3d_state_t \<Rightarrow> u32 \<Rightarrow> u32 \<Rightarrow> u32 \<Rightarrow> pvr_3d_state_t" where
  "reg_write_tex s reg_addr reg_index val =
     (if reg_addr = PVR_TEX_CONTROL then (set_tex reg_index val s)\<lparr>tex_control := val\<rparr>
      else if reg_addr = PVR_TEX_ADDR then (set_tex reg_index val s)\<lparr>tex_addr := val\<rparr>
      else if reg_addr = PVR_TEX_FORMAT then
        (let s1 = (set_tex reg_index val s)\<lparr>tex_config := val\<rparr>;
             format = val AND 0xF;
             size_code = drop_bit 4 val AND 0xF;
             width = tex_size_of_code size_code;
             height = tex_size_of_code size_code;
             ct = current_texture s1
         in s1\<lparr>textures := (textures s1)
                 (ct := (textures s1 ct)\<lparr>t_width := width, t_height := height, t_format := format\<rparr>)\<rparr>)
      else if reg_addr = PVR_TEX_FILTER then (set_tex reg_index val s)\<lparr>tex_filter := val\<rparr>
      else set_tex reg_index val s)"

definition reg_write_render :: "pvr_3d_state_t \<Rightarrow> u32 \<Rightarrow> u32 \<Rightarrow> u32 \<Rightarrow> pvr_3d_state_t" where
  "reg_write_render s reg_addr reg_index val =
     (if reg_addr = PVR_RENDER_CONTROL then
        (let s1 = (set_render reg_index val s)\<lparr>render_control := val\<rparr>;
             s2 = (if val AND PVR_RENDER_START \<noteq> 0 then
                     pvr_3d_process_command
                       (set_core (PVR_CORE_STATUS div 4)
                          (core (registers s1) (PVR_CORE_STATUS div 4)
                             OR (PVR_STAT_BUSY OR PVR_STAT_RENDER_BUSY)) s1) 0x10 0
                   else s1)
         in if val AND PVR_RENDER_RESET \<noteq> 0 then
              (let s3 = clear_render s2;
                   s4 = set_render reg_index (val AND NOT PVR_RENDER_RESET) s3
               in set_core (PVR_CORE_STATUS div 4)
                    (core (registers s4) (PVR_CORE_STATUS div 4)
                       AND NOT (PVR_STAT_BUSY OR PVR_STAT_RENDER_BUSY)) s4)
            else s2)
      else if reg_addr = PVR_RENDER_ZBUFFER then (set_render reg_index val s)\<lparr>z_compare := val\<rparr>
      else if reg_addr = PVR_RENDER_BLEND then (set_render reg_index val s)\<lparr>blend_mode := val\<rparr>
      else set_render reg_index val s)"

definition reg_write_video :: "pvr_3d_state_t \<Rightarrow> u32 \<Rightarrow> u32 \<Rightarrow> u32 \<Rightarrow> pvr_3d_state_t" where
  "reg_write_video s reg_addr reg_index val =
     (if reg_addr = PVR_VIDEO_CONTROL then set_video reg_index val s
      else if reg_addr = PVR_VIDEO_FBADDR then (set_video reg_index val s)\<lparr>disp_start := val\<rparr>
      else if reg_addr = PVR_VIDEO_STRIDE then
        (let s1 = set_video reg_index val s
         in if val \<noteq> fb_stride s1 then s1\<lparr>fb_stride := val\<rparr> else s1)
      else set_video reg_index val s)"

definition reg_write_dma :: "pvr_3d_state_t \<Rightarrow> u32 \<Rightarrow> u32 \<Rightarrow> u32 \<Rightarrow> pvr_3d_state_t" where
  "reg_write_dma s reg_addr reg_index val =
     (if reg_addr = PVR_DMA_CONTROL then
        (let s1 = (set_dma reg_index val s)\<lparr>dma_control := val\<rparr>;
             s2 = (if val AND PVR_DMA_START \<noteq> 0 then
                     (let a = set_dma (PVR_DMA_STATUS div 4)
                                (dma (registers s1) (PVR_DMA_STATUS div 4) OR PVR_DMA_BUSY) s1;
                          b = set_core (PVR_CORE_STATUS div 4)
                                (core (registers a) (PVR_CORE_STATUS div 4) OR PVR_STAT_DMA_BUSY) a
                      in pvr_3d_dma_transfer b)
                   else s1)
         in if val AND PVR_DMA_RESET \<noteq> 0 then
              (let s3 = clear_dma s2;
                   s4 = set_dma reg_index (val AND NOT PVR_DMA_RESET) s3;
                   s5 = set_dma (PVR_DMA_STATUS div 4)
                          (dma (registers s4) (PVR_DMA_STATUS div 4) AND NOT PVR_DMA_BUSY) s4
               in set_core (PVR_CORE_STATUS div 4)
                    (core (registers s5) (PVR_CORE_STATUS div 4) AND NOT PVR_STAT_DMA_BUSY) s5)
            else s2)
      else if reg_addr = PVR_DMA_SRC then (set_dma reg_index val s)\<lparr>dma_src_addr := val\<rparr>
      else if reg_addr = PVR_DMA_DEST then (set_dma reg_index val s)\<lparr>dma_dest_addr := val\<rparr>
      else if reg_addr = PVR_DMA_COUNT then (set_dma reg_index val s)\<lparr>dma_size := val\<rparr>
      else set_dma reg_index val s)"

definition reg_write_interrupt :: "pvr_3d_state_t \<Rightarrow> u32 \<Rightarrow> u32 \<Rightarrow> u32 \<Rightarrow> pvr_3d_state_t" where
  "reg_write_interrupt s reg_addr reg_index val =
     (if reg_addr = PVR_INT_MASK then set_interrupt reg_index val s
      else if reg_addr = PVR_INT_CLEAR then
        set_interrupt (PVR_INT_STATUS div 4)
          (interrupt (registers s) (PVR_INT_STATUS div 4) AND NOT val) s
      else set_interrupt reg_index val s)"

definition pvr_reg_write :: "pvr_3d_state_t \<Rightarrow> u32 \<Rightarrow> u32 \<Rightarrow> pvr_3d_state_t" where
  "pvr_reg_write s addr val =
     (let reg_set = drop_bit 12 addr AND 0xF;
          reg_addr = addr AND 0xFFF;
          reg_index = reg_addr div 4
      in if reg_addr AND 3 \<noteq> 0 then s
         else if reg_set = 0 then reg_write_core s reg_addr reg_index val
         else if reg_set = 1 then reg_write_poly s reg_addr reg_index val
         else if reg_set = 2 then reg_write_tex s reg_addr reg_index val
         else if reg_set = 3 then reg_write_render s reg_addr reg_index val
         else if reg_set = 4 then set_pci reg_index val s
         else if reg_set = 5 then reg_write_video s reg_addr reg_index val
         else if reg_set = 6 then reg_write_dma s reg_addr reg_index val
         else if reg_set = 7 then reg_write_interrupt s reg_addr reg_index val
         else s)"

subsection \<open>Register read\<close>

text \<open>
  A read of the core status register refreshes the stored VBLANK bit, so the read returns
  the value together with the state.
\<close>

definition pvr_reg_read :: "pvr_3d_state_t \<Rightarrow> u32 \<Rightarrow> u32 \<times> pvr_3d_state_t" where
  "pvr_reg_read s addr =
     (let reg_set = drop_bit 12 addr AND 0xF;
          reg_addr = addr AND 0xFFF;
          reg_index = reg_addr div 4
      in if reg_addr AND 3 \<noteq> 0 then (0xFFFFFFFF, s)
         else if reg_set = 0 then
           (let s1 = (if reg_addr = PVR_CORE_STATUS then
                        (if cgastat s AND 8 \<noteq> 0
                         then set_core reg_index (core (registers s) reg_index OR PVR_STAT_VBLANK) s
                         else set_core reg_index
                                (core (registers s) reg_index AND NOT PVR_STAT_VBLANK) s)
                      else s)
            in (core (registers s1) reg_index, s1))
         else if reg_set = 1 then (poly (registers s) reg_index, s)
         else if reg_set = 2 then (tex (registers s) reg_index, s)
         else if reg_set = 3 then (render (registers s) reg_index, s)
         else if reg_set = 4 then (pci (registers s) reg_index, s)
         else if reg_set = 5 then (video (registers s) reg_index, s)
         else if reg_set = 6 then (dma (registers s) reg_index, s)
         else if reg_set = 7 then (interrupt (registers s) reg_index, s)
         else (0xFFFFFFFF, s))"

section \<open>Entry points of the 3D pipeline\<close>

text \<open>
  The pipeline unit has its own register map, based at \<open>0x00100000\<close>; its names carry the
  prefix \<open>PVR_3D\<close> here where they clash with those of the register file.
\<close>

definition PVR_REG_BASE :: u32 where [simp]: "PVR_REG_BASE = 0x00100000"
definition PVR_3D_POLY_BASE :: u32 where [simp]: "PVR_3D_POLY_BASE = 0x00101000"
definition PVR_3D_TEX_BASE :: u32 where [simp]: "PVR_3D_TEX_BASE = 0x00102000"
definition PVR_3D_RENDER_BASE :: u32 where [simp]: "PVR_3D_RENDER_BASE = 0x00103000"
definition PVR_3D_DMA_BASE :: u32 where [simp]: "PVR_3D_DMA_BASE = 0x00104000"

definition PVR_3D_RESET :: u32 where [simp]: "PVR_3D_RESET = 0x00"
definition PVR_3D_STATUS :: u32 where [simp]: "PVR_3D_STATUS = 0x04"
definition PVR_3D_CONFIG :: u32 where [simp]: "PVR_3D_CONFIG = 0x08"
definition PVR_POLY_VERTEX_CMD :: u32 where [simp]: "PVR_POLY_VERTEX_CMD = 0x00"
definition PVR_POLY_TEXTURE_CMD :: u32 where [simp]: "PVR_POLY_TEXTURE_CMD = 0x04"
definition PVR_3D_POLY_CONTROL :: u32 where [simp]: "PVR_3D_POLY_CONTROL = 0x08"
definition PVR_3D_TEX_CONTROL :: u32 where [simp]: "PVR_3D_TEX_CONTROL = 0x00"
definition PVR_3D_TEX_ADDR :: u32 where [simp]: "PVR_3D_TEX_ADDR = 0x04"
definition PVR_3D_TEX_CONFIG :: u32 where [simp]: "PVR_3D_TEX_CONFIG = 0x08"
definition PVR_3D_TEX_FILTER :: u32 where [simp]: "PVR_3D_TEX_FILTER = 0x0C"
definition PVR_3D_RENDER_CONTROL :: u32 where [simp]: "PVR_3D_RENDER_CONTROL = 0x00"
definition PVR_RENDER_Z_COMPARE :: u32 where [simp]: "PVR_RENDER_Z_COMPARE = 0x08"
definition PVR_3D_RENDER_BLEND :: u32 where [simp]: "PVR_3D_RENDER_BLEND = 0x0C"
definition PVR_3D_DMA_CONTROL :: u32 where [simp]: "PVR_3D_DMA_CONTROL = 0x00"
definition PVR_DMA_SRC_ADDR :: u32 where [simp]: "PVR_DMA_SRC_ADDR = 0x04"
definition PVR_DMA_DEST_ADDR :: u32 where [simp]: "PVR_DMA_DEST_ADDR = 0x08"
definition PVR_DMA_SIZE :: u32 where [simp]: "PVR_DMA_SIZE = 0x0C"

text \<open>
  The part of \<^verbatim>\<open>pvr_3d_write\<close> that follows the call of \<^verbatim>\<open>pvr_reg_write\<close>: the chain
  of address-range tests on the (already masked) address.
\<close>

definition legacy_write :: "pvr_3d_state_t \<Rightarrow> u32 \<Rightarrow> u32 \<Rightarrow> pvr_3d_state_t" where
  "legacy_write s addr val =
     (if addr \<ge> PVR_REG_BASE \<and> addr < PVR_REG_BASE + 0x1000 then
        (let reg_addr = addr - PVR_REG_BASE in
         if reg_addr = PVR_3D_RESET then (if val AND 1 \<noteq> 0 then pvr_3d_reset s else s)
         else if reg_addr = PVR_3D_STATUS then s
         else if reg_addr = PVR_3D_CONFIG then s\<lparr>config_reg := val\<rparr>
         else s)
      else if addr \<ge> PVR_3D_POLY_BASE \<and> addr < PVR_3D_POLY_BASE + 0x1000 then
        (let reg_addr = addr - PVR_3D_POLY_BASE in
         if reg_addr = PVR_POLY_VERTEX_CMD then pvr_3d_process_command s 0x01 val
         else if reg_addr = PVR_POLY_TEXTURE_CMD then pvr_3d_process_command s 0x02 val
         else if reg_addr = PVR_3D_POLY_CONTROL then s\<lparr>poly_control := val\<rparr>
         else s)
      else if addr \<ge> PVR_3D_TEX_BASE \<and> addr < PVR_3D_TEX_BASE + 0x1000 then
        (let reg_addr = addr - PVR_3D_TEX_BASE in
         if reg_addr = PVR_3D_TEX_CONTROL then s\<lparr>tex_control := val\<rparr>
         else if reg_addr = PVR_3D_TEX_ADDR then s\<lparr>tex_addr := val\<rparr>
         else if reg_addr = PVR_3D_TEX_CONFIG then s\<lparr>tex_config := val\<rparr>
         else if reg_addr = PVR_3D_TEX_FILTER then s\<lparr>tex_filter := val\<rparr>
         else s)
      else if addr \<ge> PVR_3D_RENDER_BASE \<and> addr < PVR_3D_RENDER_BASE + 0x1000 then
        (let reg_addr = addr - PVR_3D_RENDER_BASE in
         if reg_addr = PVR_3D_RENDER_CONTROL then
           (let s1 = s\<lparr>render_control := val\<rparr> in
            if val AND 1 \<noteq> 0 then
              (let s2 = s1\<lparr>status_reg := status_reg s1 OR PVR_3D_STAT_RUNNING\<rparr>;
                   s3 = s2\<lparr>status_reg := status_reg s2 OR PVR_3D_STAT_BUSY\<rparr>
               in s3\<lparr>render_timer := True\<rparr>)
            else s1)
         else if reg_addr = PVR_RENDER_Z_COMPARE then s\<lparr>z_compare := val\<rparr>
         else if reg_addr = PVR_3D_RENDER_BLEND then s\<lparr>blend_mode := val\<rparr>
         else s)
      else if addr \<ge> PVR_3D_DMA_BASE \<and> addr < PVR_3D_DMA_BASE + 0x1000 then
        (let reg_addr = addr - PVR_3D_DMA_BASE in
         if reg_addr = PVR_3D_DMA_CONTROL then
           (let s1 = s\<lparr>dma_control := val\<rparr> in
            if val AND 1 \<noteq> 0 then
              (let s2 = s1\<lparr>status_reg := status_reg s1 OR PVR_3D_STAT_DMA_ACTIVE\<rparr>;
                   s3 = s2\<lparr>dma_status := dma_status s2 OR 1\<rparr>
               in pvr_3d_dma_transfer s3)
            else s1)
         else if reg_addr = PVR_DMA_SRC_ADDR then s\<lparr>dma_src_addr := val\<rparr>
         else if reg_addr = PVR_DMA_DEST_ADDR then s\<lparr>dma_dest_addr := val\<rparr>
         else if reg_addr = PVR_DMA_SIZE then s\<lparr>dma_size := val\<rparr>
         else s)
      else s)"

definition pvr_3d_write :: "pvr_3d_state_t \<Rightarrow> u32 \<Rightarrow> u32 \<Rightarrow> pvr_3d_state_t" where
  "pvr_3d_write s addr val =
     (let addr = addr AND 0xfffff;
          s1 = pvr_reg_write s addr val
      in legacy_write s1 addr val)"

text \<open>
  \<^verbatim>\<open>pvr_3d_read\<close> masks the address and returns the result of \<^verbatim>\<open>pvr_reg_read\<close>; the
  statements after that \<^verbatim>\<open>return\<close> are never executed.
\<close>

definition pvr_3d_read :: "pvr_3d_state_t \<Rightarrow> u32 \<Rightarrow> u32 \<times> pvr_3d_state_t" where
  "pvr_3d_read s addr =
     (let addr = addr AND 0xfffff
      in pvr_reg_read s addr)"


subsection \<open>Initialisation\<close>

text \<open>The zero-filled objects that \<^verbatim>\<open>calloc\<close> returns.\<close>

definition zero_vertex :: pvr_vertex_t where
  "zero_vertex = \<lparr>pos_x = 0, pos_y = 0, pos_z = 0, pos_w = 0,
                   col_r = 0, col_g = 0, col_b = 0, col_a = 0, tex_u = 0, tex_v = 0\<rparr>"

definition zero_polygon :: pvr_polygon_t where
  "zero_polygon = \<lparr>num_vertices = 0, vertices = [zero_vertex, zero_vertex, zero_vertex],
                    texture_addr = 0, control_flags = 0, z_sort_value = 0\<rparr>"

definition zero_tile :: pvr_tile_t where
  "zero_tile = \<lparr>tile_x = 0, tile_y = 0, tile_width = 0, tile_height = 0,
                 tile_polygon_list = (\<lambda>_. 0), tile_num_polygons = 0, tile_max_polygons = 0\<rparr>"

definition zero_registers :: pvr_reg_space_t where
  "zero_registers = \<lparr>core = (\<lambda>_. 0), poly = (\<lambda>_. 0), tex = (\<lambda>_. 0), render = (\<lambda>_. 0),
                      pci = (\<lambda>_. 0), video = (\<lambda>_. 0), dma = (\<lambda>_. 0), interrupt = (\<lambda>_. 0)\<rparr>"

definition zero_state :: pvr_3d_state_t where
  "zero_state =
     \<lparr>control_reg = 0, status_reg = 0, config_reg = 0, poly_control = 0, poly_status = 0,
      current_vertex = 0, vertex_buffer = (\<lambda>_. zero_vertex),
      polygon_buffer = (\<lambda>_. zero_polygon), num_polygons = 0,
      tex_control = 0, tex_addr = 0, tex_config = 0, tex_filter = 0,
      textures = (\<lambda>_. \<lparr>t_width = 0, t_height = 0, t_format = 0, t_addr = 0\<rparr>),
      current_texture = 0,
      render_control = 0, render_status = 0, z_compare = 0, blend_mode = 0,
      fifo = (\<lambda>_. \<lparr>fe_command = 0, fe_data = 0\<rparr>),
      fifo_read_ptr = 0, fifo_write_ptr = 0, fifo_entries = 0,
      tiles = (\<lambda>_. zero_tile), num_tiles_x = 0, num_tiles_y = 0, tile_size = 0,
      dma_control = 0, dma_src_addr = 0, dma_dest_addr = 0, dma_size = 0, dma_status = 0,
      fb_width = 0, fb_height = 0, fb_stride = 0, fb_format = 0,
      z_buffer = (\<lambda>_. 0), render_timer = False, registers = zero_registers,
      disp_start = 0, memory_size = 0, vram = (\<lambda>_. 0), cgastat = 0,
      fullchange = 0, changeframecount = 0\<rparr>"

definition pvr_reg_init :: "pvr_3d_state_t \<Rightarrow> pvr_3d_state_t" where
  "pvr_reg_init s = s\<lparr>registers := default_registers\<rparr>"

text \<open>The body of the two nested loops that set up the tile grid.\<close>

definition init_tile :: "int \<Rightarrow> int \<Rightarrow> pvr_3d_state_t \<Rightarrow> pvr_3d_state_t" where
  "init_tile y x s =
     (let tile_idx = y * num_tiles_x s + x;
          t = zero_tile\<lparr>tile_x := x * tile_size s, tile_y := y * tile_size s,
                        tile_width := tile_size s, tile_height := tile_size s\<rparr>;
          t = (if (word_of_int (tile_x t + tile_width t) :: u32) > fb_width s
               then t\<lparr>tile_width := sint (fb_width s - word_of_int (tile_x t))\<rparr> else t);
          t = (if (word_of_int (tile_y t + tile_height t) :: u32) > fb_height s
               then t\<lparr>tile_height := sint (fb_height s - word_of_int (tile_y t))\<rparr> else t);
          t = t\<lparr>tile_max_polygons := 64, tile_polygon_list := (\<lambda>_. 0), tile_num_polygons := 0\<rparr>
      in s\<lparr>tiles := (tiles s)(tile_idx := t)\<rparr>)"

text \<open>
  \<^verbatim>\<open>pvr_3d_init\<close>, given the fields of the parent device it reads: the size and contents
  of the video memory and the display geometry (\<open>hdisp\<close>, \<open>dispend\<close>, \<open>rowoffset\<close>, \<open>bpp\<close>).
\<close>

definition pvr_3d_init ::
  "u32 \<Rightarrow> (int \<Rightarrow> u8) \<Rightarrow> u32 \<Rightarrow> u32 \<Rightarrow> u32 \<Rightarrow> u32 \<Rightarrow> pvr_3d_state_t" where
  "pvr_3d_init mem vram0 hdisp dispend rowoffset bpp =
     (let s0 = zero_state\<lparr>memory_size := mem, vram := vram0\<rparr>;
          s1 = pvr_reg_init s0;
          s2 = pvr_3d_reset s1;
          s3 = s2\<lparr>render_timer := False\<rparr>;
          s4 = s3\<lparr>fb_width := hdisp, fb_height := dispend, fb_stride := rowoffset,
                  fb_format := bpp\<rparr>;
          s5 = s4\<lparr>z_buffer := (\<lambda>_. 0)\<rparr>;
          s6 = s5\<lparr>tile_size := 32\<rparr>;
          s7 = s6\<lparr>num_tiles_x :=
                    sint ((fb_width s6 + word_of_int (tile_size s6) - 1) div word_of_int (tile_size s6))\<rparr>;
          s8 = s7\<lparr>num_tiles_y :=
                    sint ((fb_height s7 + word_of_int (tile_size s7) - 1) div word_of_int (tile_size s7))\<rparr>
      in fold (\<lambda>y. fold (init_tile y) [0..num_tiles_x s8 - 1]) [0..num_tiles_y s8 - 1] s8)"


section \<open>Auxiliary definitions\<close>

text \<open>
  Erasures: a state with the fields that a group of functions may change set to fixed
  values. Two states with the same erasure agree on every other field.
\<close>

definition erase_tiles :: "pvr_3d_state_t \<Rightarrow> pvr_3d_state_t" where
  "erase_tiles s = s\<lparr>tiles := (\<lambda>_. zero_tile)\<rparr>"

definition erase_render :: "pvr_3d_state_t \<Rightarrow> pvr_3d_state_t" where
  "erase_render s = s\<lparr>tiles := (\<lambda>_. zero_tile), z_buffer := (\<lambda>_. 0), vram := (\<lambda>_. 0)\<rparr>"

definition erase_scene :: "pvr_3d_state_t \<Rightarrow> pvr_3d_state_t" where
  "erase_scene s = (erase_render s)\<lparr>num_polygons := 0, fullchange := 0\<rparr>"

definition erase_dispatch :: "pvr_3d_state_t \<Rightarrow> pvr_3d_state_t" where
  "erase_dispatch s =
     (erase_scene s)\<lparr>vertex_buffer := (\<lambda>_. zero_vertex), current_vertex := 0,
        textures := (\<lambda>_. \<lparr>t_width = 0, t_height = 0, t_format = 0, t_addr = 0\<rparr>),
        polygon_buffer := (\<lambda>_. zero_polygon), status_reg := 0, render_timer := False\<rparr>"

text \<open>
  Sequences of FIFO operations: a push of a (command, data) pair, or one call of the drain
  \<^verbatim>\<open>pvr_3d_process_fifo\<close>. A push is accepted when it does not take the overflow return;
  the number of entries a drain processes is the final value of its local counter.
\<close>

datatype fifo_op = Push u32 u32 | Drain

fun apply_fifo_op :: "pvr_3d_state_t \<Rightarrow> fifo_op \<Rightarrow> pvr_3d_state_t" where
  "apply_fifo_op s (Push c d) = pvr_3d_push_fifo s c d"
| "apply_fifo_op s Drain = pvr_3d_process_fifo s"

fun run_fifo_ops :: "pvr_3d_state_t \<Rightarrow> fifo_op list \<Rightarrow> pvr_3d_state_t" where
  "run_fifo_ops s [] = s"
| "run_fifo_ops s (x # xs) = run_fifo_ops (apply_fifo_op s x) xs"

fun op_accepted :: "pvr_3d_state_t \<Rightarrow> fifo_op \<Rightarrow> int" where
  "op_accepted s (Push c d) = (if fifo_entries s \<ge> PVR_FIFO_SIZE then 0 else 1)"
| "op_accepted s Drain = 0"

fun op_processed :: "pvr_3d_state_t \<Rightarrow> fifo_op \<Rightarrow> int" where
  "op_processed s (Push c d) = 0"
| "op_processed s Drain = snd (process_fifo_loop s 0)"

fun writes_accepted :: "pvr_3d_state_t \<Rightarrow> fifo_op list \<Rightarrow> int" where
  "writes_accepted s [] = 0"
| "writes_accepted s (x # xs) = op_accepted s x + writes_accepted (apply_fifo_op s x) xs"

fun drains_processed :: "pvr_3d_state_t \<Rightarrow> fifo_op list \<Rightarrow> int" where
  "drains_processed s [] = 0"
| "drains_processed s (x # xs) = op_processed s x + drains_processed (apply_fifo_op s x) xs"

definition vertex_of_command :: "pvr_3d_state_t \<Rightarrow> u32 \<Rightarrow> pvr_vertex_t \<Rightarrow> pvr_vertex_t" where
  "vertex_of_command s dat v =
     v\<lparr>pos_x := u2f (dat AND 0x3ff) / 1024 * u2f (fb_width s),
       pos_y := u2f (drop_bit 10 dat AND 0x3ff) / 1024 * u2f (fb_height s),
       pos_z := u2f (drop_bit 20 dat AND 0xfff) / 4096,
       pos_w := 1\<rparr>"

definition next_ptr :: "int \<Rightarrow> int" where
  "next_ptr i = c_mod (i + 1) PVR_FIFO_SIZE"

definition three_vertices_queued :: "pvr_3d_state_t \<Rightarrow> u32 \<Rightarrow> u32 \<Rightarrow> u32 \<Rightarrow> bool" where
  "three_vertices_queued s d0 d1 d2 \<longleftrightarrow>
     fifo_entries s = 3 \<and>
     fifo s (fifo_read_ptr s) = \<lparr>fe_command = 0x01, fe_data = d0\<rparr> \<and>
     fifo s (next_ptr (fifo_read_ptr s)) = \<lparr>fe_command = 0x01, fe_data = d1\<rparr> \<and>
     fifo s (next_ptr (next_ptr (fifo_read_ptr s))) = \<lparr>fe_command = 0x01, fe_data = d2\<rparr>"

definition assembled_polygon :: "pvr_3d_state_t \<Rightarrow> u32 \<Rightarrow> u32 \<Rightarrow> u32 \<Rightarrow> pvr_polygon_t" where
  "assembled_polygon s d0 d1 d2 =
     (let v0 = vertex_of_command s d0 (vertex_buffer s 0);
          v1 = vertex_of_command s d1 (vertex_buffer s 1);
          v2 = vertex_of_command s d2 (vertex_buffer s 2)
      in (polygon_buffer s (num_polygons s))\<lparr>
           num_vertices := 3,
           vertices := [v0, v1, v2],
           texture_addr := t_addr (textures s (current_texture s)),
           control_flags := poly_control s,
           z_sort_value := f2u32 ((pos_z v0 + pos_z v1 + pos_z v2) * 1365)\<rparr>)"

definition fifo_idle :: "pvr_3d_state_t \<Rightarrow> bool" where
  "fifo_idle s \<longleftrightarrow>
     fifo_entries s = 0 \<and> fifo_read_ptr s = fifo_write_ptr s \<and>
     status_reg s AND PVR_3D_STAT_RUNNING = 0"

definition enqueue_idle :: "pvr_3d_state_t \<Rightarrow> u32 \<Rightarrow> u32 \<Rightarrow> pvr_3d_state_t" where
  "enqueue_idle s c d =
     s\<lparr>fifo := (fifo s)(fifo_write_ptr s := \<lparr>fe_command = c, fe_data = d\<rparr>),
       fifo_write_ptr := c_mod (fifo_write_ptr s + 1) PVR_FIFO_SIZE,
       fifo_entries := 1,
       status_reg := status_reg s AND NOT PVR_3D_STAT_FIFO_EMPTY\<rparr>"

definition same_grid :: "pvr_3d_state_t \<Rightarrow> pvr_3d_state_t \<Rightarrow> bool" where
  "same_grid a b \<longleftrightarrow> tiles a = tiles b \<and> num_tiles_x a = num_tiles_x b"

definition queue3 :: "pvr_3d_state_t \<Rightarrow> u32 \<Rightarrow> u32 \<Rightarrow> u32 \<Rightarrow> pvr_3d_state_t" where
  "queue3 s d0 d1 d2 =
     pvr_3d_push_fifo (pvr_3d_push_fifo (pvr_3d_push_fifo s 0x01 d0) 0x01 d1) 0x01 d2"

definition demo_state :: pvr_3d_state_t where
  "demo_state = pvr_3d_init (16 * 1024 * 1024) (\<lambda>_. 0) 64 64 64 32"

definition dma_demo :: pvr_3d_state_t where
  "dma_demo = pvr_reg_write (pvr_reg_write demo_state 0x600C 0x1000000) 0x6010 16"

definition z_demo_polygon :: pvr_polygon_t where
  "z_demo_polygon =
     \<lparr>num_vertices = 3,
      vertices = [zero_vertex\<lparr>pos_z := 1 / 2, pos_w := 1\<rparr>,
                  zero_vertex\<lparr>pos_x := 10, pos_z := 1 / 2, pos_w := 1\<rparr>,
                  zero_vertex\<lparr>pos_y := 10, pos_z := 1 / 2, pos_w := 1\<rparr>],
      texture_addr = 0, control_flags = 1, z_sort_value = 2047\<rparr>"








text \<open>
  Three writes to the VERTEX data register: one triangle. \<open>full_demo\<close> is the state of the
  64 by 64 display after 2048 triangles were written without a render start.
\<close>

definition triangle_write :: "pvr_3d_state_t \<Rightarrow> pvr_3d_state_t" where
  "triangle_write s =
     pvr_reg_write (pvr_reg_write (pvr_reg_write s 0x1008 0) 0x1008 0) 0x1008 0"

definition full_demo :: pvr_3d_state_t where
  "full_demo = (triangle_write ^^ 2048) demo_state"

section \<open>Frame properties\<close>

lemma fold_invariant:
  assumes "\<And>x s. E (f x s) = E s"
  shows "E (fold f xs s) = E s"
  by (induction xs arbitrary: s) (simp_all add: assms)

lemmas erase_tiles_if = if_distrib [of erase_tiles]
lemmas erase_render_if = if_distrib [of erase_render]
lemmas erase_scene_if = if_distrib [of erase_scene]
lemmas erase_dispatch_if = if_distrib [of erase_dispatch]

lemma distribute_tile_erase: "erase_tiles (distribute_tile p y x s) = erase_tiles s"
  by (simp add: distribute_tile_def erase_tiles_def Let_def)

lemma distribute_erase: "erase_tiles (pvr_3d_distribute_to_tiles s p) = erase_tiles s"
proof -
  have inner: "\<And>y xs s. erase_tiles (fold (distribute_tile p y) xs s) = erase_tiles s"
    by (rule fold_invariant) (rule distribute_tile_erase)
  have outer: "\<And>ys xs s. erase_tiles (fold (\<lambda>y. fold (distribute_tile p y) xs) ys s) = erase_tiles s"
    by (rule fold_invariant) (rule inner)
  show ?thesis
    unfolding pvr_3d_distribute_to_tiles_def Let_def
    by (simp only: outer split: prod.split) simp
qed

lemma distribute_frame:
  "pvr_3d_distribute_to_tiles s p = s\<lparr>tiles := tiles (pvr_3d_distribute_to_tiles s p)\<rparr>"
proof -
  have "pvr_3d_distribute_to_tiles s p
        = (erase_tiles (pvr_3d_distribute_to_tiles s p))\<lparr>tiles := tiles (pvr_3d_distribute_to_tiles s p)\<rparr>"
    by (simp add: erase_tiles_def)
  also have "\<dots> = (erase_tiles s)\<lparr>tiles := tiles (pvr_3d_distribute_to_tiles s p)\<rparr>"
    by (simp only: distribute_erase)
  also have "\<dots> = s\<lparr>tiles := tiles (pvr_3d_distribute_to_tiles s p)\<rparr>"
    by (simp add: erase_tiles_def)
  finally show ?thesis .
qed

lemma write_pixel_erase: "erase_render (write_pixel s off c) = erase_render s"
  by (simp add: write_pixel_def erase_render_def Let_def)

lemma covered_pixel_erase: "erase_render (covered_pixel p w0 w1 w2 y x s) = erase_render s"
proof -
  have sh: "\<And>s. erase_render (shade_pixel p w0 w1 w2 y x s) = erase_render s"
    unfolding shade_pixel_def Let_def by (rule write_pixel_erase)
  have zb: "\<And>i d. erase_render (s\<lparr>z_buffer := (z_buffer s)(i := d)\<rparr>) = erase_render s"
    by (simp add: erase_render_def)
  show ?thesis
    unfolding covered_pixel_def Let_def
    by (simp only: erase_render_if sh zb if_cancel)
qed

lemma draw_pixel_erase: "erase_render (draw_pixel p ia y x s) = erase_render s"
  unfolding draw_pixel_def
  by (cases "pixel_weights p ia y x")
     (simp only: prod.case erase_render_if covered_pixel_erase if_cancel)

lemma draw_triangle_erase: "erase_render (pvr_3d_draw_triangle s p) = erase_render s"
proof -
  have inner: "\<And>q ia y xs s. erase_render (fold (draw_pixel q ia y) xs s) = erase_render s"
    by (rule fold_invariant) (rule draw_pixel_erase)
  have outer: "\<And>q ia ys xs s. erase_render (fold (\<lambda>y. fold (draw_pixel q ia y) xs) ys s) = erase_render s"
    by (rule fold_invariant) (rule inner)
  show ?thesis
    unfolding pvr_3d_draw_triangle_def Let_def
    by (simp only: erase_render_if outer if_cancel)
qed

lemma render_polygon_erase: "erase_render (pvr_3d_render_polygon s p) = erase_render s"
  unfolding pvr_3d_render_polygon_def Let_def
  by (simp only: erase_render_if draw_triangle_erase if_cancel)

lemma sort_step_erase: "erase_render (sort_step ti j s) = erase_render s"
  by (simp add: sort_step_def erase_render_def Let_def)

lemma render_tile_erase: "erase_render (pvr_3d_render_tile s ti) = erase_render s"
proof -
  have inner: "\<And>i xs s. erase_render (fold (sort_step ti) xs s) = erase_render s"
    by (rule fold_invariant) (rule sort_step_erase)
  have sorted: "\<And>n xs s. erase_render (fold (\<lambda>i. fold (sort_step ti) [0..n - i - 1 - 1]) xs s) = erase_render s"
    by (rule fold_invariant) (rule inner)
  have rend: "\<And>xs s. erase_render (fold (\<lambda>i s. pvr_3d_render_polygon s (tile_polygon_list (tiles s ti) i)) xs s) = erase_render s"
    by (rule fold_invariant) (rule render_polygon_erase)
  show ?thesis
    unfolding pvr_3d_render_tile_def Let_def
    by (simp only: rend sorted)
qed

lemma render_scene_tile_erase: "erase_render (render_scene_tile y x s) = erase_render s"
  unfolding render_scene_tile_def Let_def
  by (simp only: erase_render_if render_tile_erase if_cancel)

lemma render_all_tiles_erase:
  "erase_render (fold (\<lambda>y. fold (render_scene_tile y) xs) ys s) = erase_render s"
proof -
  have inner: "\<And>y xs s. erase_render (fold (render_scene_tile y) xs s) = erase_render s"
    by (rule fold_invariant) (rule render_scene_tile_erase)
  show ?thesis by (rule fold_invariant) (rule inner)
qed

lemma clear_tile_count_erase: "erase_render (clear_tile_count i s) = erase_render s"
  by (simp add: clear_tile_count_def erase_render_def)

lemma clear_tile_counts_erase: "erase_render (fold clear_tile_count xs s) = erase_render s"
  by (rule fold_invariant) (rule clear_tile_count_erase)

lemma clear_z_buffer_erase: "erase_render (clear_z_buffer s) = erase_render s"
  by (simp add: clear_z_buffer_def erase_render_def)

lemma erase_scene_cong: "erase_render a = erase_render b \<Longrightarrow> erase_scene a = erase_scene b"
  by (simp only: erase_scene_def)

lemma erase_scene_upd:
  "erase_scene (s\<lparr>num_polygons := n\<rparr>) = erase_scene s"
  "erase_scene (s\<lparr>fullchange := c\<rparr>) = erase_scene s"
  by (simp_all add: erase_scene_def erase_render_def)

lemma render_scene_erase: "erase_scene (pvr_3d_render_scene s) = erase_scene s"
proof -
  have 1: "erase_scene (clear_z_buffer s) = erase_scene s"
    by (rule erase_scene_cong) (rule clear_z_buffer_erase)
  have 2: "\<And>xs ys s. erase_scene (fold (\<lambda>y. fold (render_scene_tile y) xs) ys s) = erase_scene s"
    by (rule erase_scene_cong) (rule render_all_tiles_erase)
  have 3: "\<And>xs s. erase_scene (fold clear_tile_count xs s) = erase_scene s"
    by (rule erase_scene_cong) (rule clear_tile_counts_erase)
  show ?thesis
    unfolding pvr_3d_render_scene_def Let_def
    by (simp only: erase_scene_upd 1 2 3)
qed

lemma erase_scene_fields:
  assumes "erase_scene a = erase_scene b"
  shows "status_reg a = status_reg b" "num_tiles_x a = num_tiles_x b"
    "num_tiles_y a = num_tiles_y b" "render_timer a = render_timer b"
    "fb_width a = fb_width b" "fb_height a = fb_height b"
    "polygon_buffer a = polygon_buffer b" "vertex_buffer a = vertex_buffer b"
    "current_vertex a = current_vertex b" "changeframecount a = changeframecount b"
  using arg_cong [OF assms, of status_reg] arg_cong [OF assms, of num_tiles_x]
    arg_cong [OF assms, of num_tiles_y] arg_cong [OF assms, of render_timer]
    arg_cong [OF assms, of fb_width] arg_cong [OF assms, of fb_height]
    arg_cong [OF assms, of polygon_buffer] arg_cong [OF assms, of vertex_buffer]
    arg_cong [OF assms, of current_vertex] arg_cong [OF assms, of changeframecount]
  by (simp_all add: erase_scene_def erase_render_def)

lemma erase_render_of_tiles:
  "erase_render s = (erase_tiles s)\<lparr>z_buffer := (\<lambda>_. 0), vram := (\<lambda>_. 0)\<rparr>"
  by (simp add: erase_render_def erase_tiles_def)

lemma erase_dispatch_cong: "erase_scene a = erase_scene b \<Longrightarrow> erase_dispatch a = erase_dispatch b"
  by (simp only: erase_dispatch_def)

lemma erase_dispatch_cong_tiles:
  "erase_tiles a = erase_tiles b \<Longrightarrow> erase_dispatch a = erase_dispatch b"
  by (simp only: erase_dispatch_def erase_scene_def erase_render_of_tiles)

lemma erase_dispatch_upd:
  "erase_dispatch (s\<lparr>vertex_buffer := vb\<rparr>) = erase_dispatch s"
  "erase_dispatch (s\<lparr>current_vertex := cv\<rparr>) = erase_dispatch s"
  "erase_dispatch (s\<lparr>textures := tx\<rparr>) = erase_dispatch s"
  "erase_dispatch (s\<lparr>polygon_buffer := pb\<rparr>) = erase_dispatch s"
  "erase_dispatch (s\<lparr>status_reg := sr\<rparr>) = erase_dispatch s"
  "erase_dispatch (s\<lparr>render_timer := rt\<rparr>) = erase_dispatch s"
  "erase_dispatch (s\<lparr>num_polygons := n\<rparr>) = erase_dispatch s"
  by (simp_all add: erase_dispatch_def erase_scene_def erase_render_def)

lemma setup_polygon_erase: "erase_dispatch (pvr_3d_setup_polygon s) = erase_dispatch s"
proof -
  have d: "\<And>s p. erase_dispatch (pvr_3d_distribute_to_tiles s p) = erase_dispatch s"
    by (rule erase_dispatch_cong_tiles) (rule distribute_erase)
  show ?thesis
    unfolding pvr_3d_setup_polygon_def Let_def
    by (simp only: erase_dispatch_if erase_dispatch_upd d if_cancel)
qed

lemma fifo_dispatch_erase: "erase_dispatch (fifo_dispatch s c d) = erase_dispatch s"
proof -
  have r: "\<And>s. erase_dispatch (pvr_3d_render_scene s) = erase_dispatch s"
    by (rule erase_dispatch_cong) (rule render_scene_erase)
  show ?thesis
    unfolding fifo_dispatch_def Let_def
    by (simp only: erase_dispatch_if erase_dispatch_upd setup_polygon_erase r if_cancel)
qed

lemma erase_dispatch_fields:
  assumes "erase_dispatch a = erase_dispatch b"
  shows "fifo a = fifo b" "fifo_read_ptr a = fifo_read_ptr b"
    "fifo_write_ptr a = fifo_write_ptr b" "fifo_entries a = fifo_entries b"
    "registers a = registers b" "poly_control a = poly_control b"
    "num_tiles_x a = num_tiles_x b" "num_tiles_y a = num_tiles_y b"
    "fb_width a = fb_width b" "fb_height a = fb_height b"
  using arg_cong [OF assms, of fifo] arg_cong [OF assms, of fifo_read_ptr]
    arg_cong [OF assms, of fifo_write_ptr] arg_cong [OF assms, of fifo_entries]
    arg_cong [OF assms, of registers] arg_cong [OF assms, of poly_control]
    arg_cong [OF assms, of num_tiles_x] arg_cong [OF assms, of num_tiles_y]
    arg_cong [OF assms, of fb_width] arg_cong [OF assms, of fb_height]
  by (simp_all add: erase_dispatch_def erase_scene_def erase_render_def)

lemmas fifo_dispatch_fields = erase_dispatch_fields [OF fifo_dispatch_erase]
lemmas render_scene_fields = erase_scene_fields [OF render_scene_erase]

lemma setup_polygon_status: "status_reg (pvr_3d_setup_polygon s) = status_reg s"
proof -
  have "status_reg (pvr_3d_distribute_to_tiles s' p) = status_reg s'" for s' p
    by (subst distribute_frame) simp
  then show ?thesis
    unfolding pvr_3d_setup_polygon_def Let_def by (simp add: if_distrib [of status_reg])
qed

lemma fifo_dispatch_status:
  "status_reg (fifo_dispatch s c d) =
     (if c = 0x10 then (status_reg s OR PVR_3D_STAT_RUNNING) OR PVR_3D_STAT_BUSY else status_reg s)"
  unfolding fifo_dispatch_def Let_def
  by (simp add: if_distrib [of status_reg] setup_polygon_status render_scene_fields)

section \<open>Properties of the register interface\<close>

subsection \<open>Address decoding\<close>

lemma mask20_eq: "(0xfffff :: u32) = mask 20"
  by (simp add: mask_eq_exp_minus_1)

lemma mask12_eq: "(0xFFF :: u32) = mask 12"
  by (simp add: mask_eq_exp_minus_1)

lemma mask4_eq: "(0xF :: u32) = mask 4"
  by (simp add: mask_eq_exp_minus_1)

lemma mask2_eq: "(3 :: u32) = mask 2"
  by (simp add: mask_eq_exp_minus_1)

lemma reg_addr_masked: "(addr AND 0xfffff) AND 0xFFF = addr AND (0xFFF :: u32)"
  unfolding mask20_eq mask12_eq by (rule bit_word_eqI) (auto simp: bit_simps)

lemma reg_set_masked:
  "drop_bit 12 (addr AND 0xfffff) AND 0xF = drop_bit 12 addr AND (0xF :: u32)"
  unfolding mask20_eq mask4_eq by (rule bit_word_eqI) (auto simp: bit_simps)

lemma reg_addr_low_bits: "(addr AND 0xFFF) AND 3 = addr AND (3 :: u32)"
  unfolding mask12_eq mask2_eq by (rule bit_word_eqI) (auto simp: bit_simps)

lemma masked_below_base: "(addr :: u32) AND 0xfffff < 0x100000"
proof -
  have "addr AND 0xfffff \<le> 0xfffff" by (rule word_and_le1)
  then show ?thesis by (simp add: word_le_nat_alt word_less_nat_alt)
qed

text \<open>
  After the 20-bit mask the address lies below every range of the pipeline's own register
  map, so the chain of range tests falls through to its last branch, which only logs.
\<close>

lemma legacy_write_masked: "legacy_write s (addr AND 0xfffff) val = s"
proof -
  have lt: "addr AND 0xfffff < 0x100000" by (rule masked_below_base)
  have n1: "\<not> (0x100000 :: u32) \<le> addr AND 0xfffff"
    using lt by (simp add: not_le)
  have n2: "\<not> (0x101000 :: u32) \<le> addr AND 0xfffff"
    using lt by (simp add: word_le_nat_alt word_less_nat_alt)
  have n3: "\<not> (0x102000 :: u32) \<le> addr AND 0xfffff"
    using lt by (simp add: word_le_nat_alt word_less_nat_alt)
  have n4: "\<not> (0x103000 :: u32) \<le> addr AND 0xfffff"
    using lt by (simp add: word_le_nat_alt word_less_nat_alt)
  have n5: "\<not> (0x104000 :: u32) \<le> addr AND 0xfffff"
    using lt by (simp add: word_le_nat_alt word_less_nat_alt)
  show ?thesis unfolding legacy_write_def using n1 n2 n3 n4 n5 by simp
qed

lemma pvr_reg_write_masked: "pvr_reg_write s (addr AND 0xfffff) val = pvr_reg_write s addr val"
  unfolding pvr_reg_write_def by (simp only: reg_addr_masked reg_set_masked)

lemma pvr_reg_read_masked: "pvr_reg_read s (addr AND 0xfffff) = pvr_reg_read s addr"
  unfolding pvr_reg_read_def by (simp only: reg_addr_masked reg_set_masked)

lemma pvr_3d_write_eq: "pvr_3d_write s addr val = pvr_reg_write s addr val"
  unfolding pvr_3d_write_def
  by (simp only: Let_def legacy_write_masked pvr_reg_write_masked)

lemma pvr_3d_read_eq: "pvr_3d_read s addr = pvr_reg_read s addr"
  unfolding pvr_3d_read_def
  by (simp only: Let_def pvr_reg_read_masked)

text \<open>
  Claim C2. The banked register interface is authoritative: for every state, address and
  value, a write through \<open>pvr_3d_write\<close> leaves exactly the state that \<open>pvr_reg_write\<close>
  leaves (the address-range chain that follows it changes nothing), and a read through
  \<open>pvr_3d_read\<close> returns exactly the value and state of \<open>pvr_reg_read\<close>.
\<close>

theorem banked_interface_authoritative:
  "pvr_3d_write s addr val = pvr_reg_write s addr val \<and>
   pvr_3d_read s addr = pvr_reg_read s addr"
  unfolding pvr_3d_write_def pvr_3d_read_def
  by (simp only: Let_def legacy_write_masked pvr_reg_write_masked pvr_reg_read_masked simp_thms)

subsection \<open>Unaligned accesses\<close>

lemma pvr_reg_write_unaligned:
  assumes "addr AND 3 \<noteq> 0"
  shows "pvr_reg_write s addr val = s"
proof -
  have "(addr AND 0xFFF) AND 3 \<noteq> 0" unfolding reg_addr_low_bits by (rule assms)
  then show ?thesis unfolding pvr_reg_write_def Let_def by (rule if_P)
qed

lemma pvr_reg_read_unaligned:
  assumes "addr AND 3 \<noteq> 0"
  shows "pvr_reg_read s addr = (0xFFFFFFFF, s)"
proof -
  have "(addr AND 0xFFF) AND 3 \<noteq> 0" unfolding reg_addr_low_bits by (rule assms)
  then show ?thesis unfolding pvr_reg_read_def Let_def by (rule if_P)
qed

text \<open>
  Claim C8. For every address whose low two bits are not both zero, a register write
  returns the state unchanged (no stored register value and no pipeline field changes),
  and a register read returns \<open>0xFFFFFFFF\<close> and the unchanged state; the same holds
  through the entry points \<open>pvr_3d_write\<close> and \<open>pvr_3d_read\<close>.
\<close>

theorem unaligned_access_rejected:
  assumes "addr AND 3 \<noteq> 0"
  shows "pvr_reg_write s addr val = s \<and> pvr_reg_read s addr = (0xFFFFFFFF, s) \<and>
         pvr_3d_write s addr val = s \<and> pvr_3d_read s addr = (0xFFFFFFFF, s)"
  using assms
  by (simp only: pvr_3d_write_eq pvr_3d_read_eq pvr_reg_write_unaligned
        pvr_reg_read_unaligned simp_thms)

section \<open>Properties of the DMA engine\<close>

lemma done_set: "((x AND NOT 1) OR 2) AND 2 = (2 :: u32)"
  by (rule bit_word_eqI) (auto simp: bit_simps)

lemma busy_clear: "((x AND NOT 1) OR 2) AND 1 = (0 :: u32)"
  by (rule bit_word_eqI) (auto simp: bit_simps)

lemma active_clear: "(x AND NOT 32) AND 32 = (0 :: u32)"
  by (rule bit_word_eqI) (auto simp: bit_simps)

lemma dma_busy_clear: "(x AND NOT 16) AND 16 = (0 :: u32)"
  by (rule bit_word_eqI) (auto simp: bit_simps)

text \<open>The status updates of a transfer do not depend on the outcome of the bounds check.\<close>

lemma dma_transfer_fields:
  "dma_status (pvr_3d_dma_transfer s) = (dma_status s AND NOT 1) OR 2"
  "status_reg (pvr_3d_dma_transfer s) = status_reg s AND NOT 32"
  "dma (registers (pvr_3d_dma_transfer s)) 1 = (dma (registers s) 1 AND NOT 1) OR 2"
  "core (registers (pvr_3d_dma_transfer s)) 3 = core (registers s) 3 AND NOT 16"
  by (simp_all add: pvr_3d_dma_transfer_def pvr_reg_dma_complete_def Let_def set_dma_def
        set_core_def set_interrupt_def)

lemma dma_transfer_out_of_range:
  assumes "memory_size s \<le> dma_src_addr s \<or> memory_size s \<le> dma_dest_addr s \<or>
           memory_size s < dma_dest_addr s + dma_clamp_size (dma_size s)"
  shows "vram (pvr_3d_dma_transfer s) = vram s"
proof -
  have m: "memory_size (pvr_reg_dma_complete s) = memory_size s"
    by (simp add: pvr_reg_dma_complete_def Let_def set_dma_def set_core_def set_interrupt_def)
  have v: "vram (pvr_reg_dma_complete s) = vram s"
    by (simp add: pvr_reg_dma_complete_def Let_def set_dma_def set_core_def set_interrupt_def)
  have r: "\<not> dma_in_range (pvr_reg_dma_complete s) (dma_src_addr s) (dma_dest_addr s)
             (dma_clamp_size (dma_size s))"
    using assms unfolding dma_in_range_def m by (auto simp: not_less not_le)
  show ?thesis
    unfolding pvr_3d_dma_transfer_def Let_def using r v by simp
qed

text \<open>
  Claim C3. If the source address or the destination address of a DMA transfer is not
  below the video memory size, or the destination plus the (clamped) size exceeds it, the
  transfer copies nothing: the video memory is unchanged. All the same, afterwards the done
  bit is set and the busy bit is clear, both in the pipeline's \<open>dma_status\<close> and in the
  DMA status register of the register file, and the DMA-active and DMA-busy bits of the
  two core status words are clear.
\<close>

theorem dma_out_of_range_skipped_but_done:
  assumes "memory_size s \<le> dma_src_addr s \<or> memory_size s \<le> dma_dest_addr s \<or>
           memory_size s < dma_dest_addr s + dma_clamp_size (dma_size s)"
  shows "vram (pvr_3d_dma_transfer s) = vram s \<and>
         dma_status (pvr_3d_dma_transfer s) AND PVR_DMA_DONE = PVR_DMA_DONE \<and>
         dma_status (pvr_3d_dma_transfer s) AND PVR_DMA_BUSY = 0 \<and>
         dma (registers (pvr_3d_dma_transfer s)) (PVR_DMA_STATUS div 4) AND PVR_DMA_DONE
           = PVR_DMA_DONE \<and>
         dma (registers (pvr_3d_dma_transfer s)) (PVR_DMA_STATUS div 4) AND PVR_DMA_BUSY = 0 \<and>
         status_reg (pvr_3d_dma_transfer s) AND PVR_3D_STAT_DMA_ACTIVE = 0 \<and>
         core (registers (pvr_3d_dma_transfer s)) (PVR_CORE_STATUS div 4) AND PVR_STAT_DMA_BUSY
           = 0"
proof -
  have i1: "(PVR_DMA_STATUS div 4) = 1" by simp
  have i3: "(PVR_CORE_STATUS div 4) = 3" by simp
  show ?thesis
    unfolding i1 i3 PVR_DMA_DONE_def PVR_DMA_BUSY_def PVR_3D_STAT_DMA_ACTIVE_def
      PVR_STAT_DMA_BUSY_def dma_transfer_fields dma_transfer_out_of_range [OF assms]
    by (simp only: done_set busy_clear active_clear dma_busy_clear simp_thms)
qed

section \<open>Properties of the command FIFO\<close>

lemma push_fifo_entries:
  "fifo_entries (pvr_3d_push_fifo s c d) =
     (if fifo_entries s \<ge> PVR_FIFO_SIZE then fifo_entries s else fifo_entries s + 1)"
  by (simp add: pvr_3d_push_fifo_def Let_def)

lemma full_flag_set: "(x OR 16) AND 16 = (16 :: u32)"
  by (rule bit_word_eqI) (auto simp: bit_simps)

lemma empty_flag_set: "(x OR 8) AND 8 = (8 :: u32)"
  by (rule bit_word_eqI) (auto simp: bit_simps)

lemma push_fifo_full:
  assumes "fifo_entries s \<ge> PVR_FIFO_SIZE"
  shows "pvr_3d_push_fifo s c d = s\<lparr>status_reg := status_reg s OR PVR_3D_STAT_FIFO_FULL\<rparr>"
  using assms by (simp add: pvr_3d_push_fifo_def)

lemma fifo_advance_entries: "fifo_entries (fifo_advance s) = fifo_entries s - 1"
  by (simp add: fifo_advance_def Let_def)

lemma fifo_advance_empty:
  "fifo_entries (fifo_advance s) = 0 \<Longrightarrow>
   status_reg (fifo_advance s) AND PVR_3D_STAT_FIFO_EMPTY = PVR_3D_STAT_FIFO_EMPTY"
  by (simp add: fifo_advance_def Let_def empty_flag_set split: if_splits)

lemma fifo_step_entries: "fifo_entries (fifo_step s) = fifo_entries s - 1"
  unfolding fifo_step_def Let_def by (simp only: fifo_advance_entries fifo_dispatch_fields)

lemma fifo_step_empty:
  "fifo_entries (fifo_step s) = 0 \<Longrightarrow>
   status_reg (fifo_step s) AND PVR_3D_STAT_FIFO_EMPTY = PVR_3D_STAT_FIFO_EMPTY"
  unfolding fifo_step_def Let_def by (rule fifo_advance_empty)

lemma process_fifo_loop_stop:
  assumes "\<not> (fifo_entries s > 0 \<and> n < 32)"
  shows "process_fifo_loop s n = (s, n)"
  by (subst process_fifo_loop.simps) (rule if_not_P [OF assms])

lemma process_fifo_loop_continue:
  assumes "fifo_entries s > 0 \<and> n < 32"
  shows "process_fifo_loop s n = process_fifo_loop (fifo_step s) (n + 1)"
  by (subst process_fifo_loop.simps) (rule if_P [OF assms])

lemma process_fifo_loop_count:
  "0 \<le> fifo_entries s \<Longrightarrow>
   fifo_entries (fst (process_fifo_loop s n)) = fifo_entries s - (snd (process_fifo_loop s n) - n) \<and>
   n \<le> snd (process_fifo_loop s n) \<and> 0 \<le> fifo_entries (fst (process_fifo_loop s n))"
proof (induction s n rule: process_fifo_loop.induct)
  case (1 s n)
  show ?case
  proof (cases "fifo_entries s > 0 \<and> n < 32")
    case True
    then have eq: "process_fifo_loop s n = process_fifo_loop (fifo_step s) (n + 1)"
      by (rule process_fifo_loop_continue)
    have "0 \<le> fifo_entries (fifo_step s)" using True by (simp add: fifo_step_entries)
    from "1.IH" [OF True this] show ?thesis
      unfolding eq by (simp add: fifo_step_entries)
  next
    case False
    then have eq: "process_fifo_loop s n = (s, n)"
      by (rule process_fifo_loop_stop)
    show ?thesis unfolding eq using "1.prems" by simp
  qed
qed

lemma process_fifo_loop_empty:
  "0 < fifo_entries s \<Longrightarrow> n < 32 \<Longrightarrow> fifo_entries (fst (process_fifo_loop s n)) = 0 \<Longrightarrow>
   status_reg (fst (process_fifo_loop s n)) AND PVR_3D_STAT_FIFO_EMPTY = PVR_3D_STAT_FIFO_EMPTY"
proof (induction s n rule: process_fifo_loop.induct)
  case (1 s n)
  have c: "fifo_entries s > 0 \<and> n < 32" using "1.prems" by simp
  have eq: "process_fifo_loop s n = process_fifo_loop (fifo_step s) (n + 1)"
    using c by (rule process_fifo_loop_continue)
  show ?case
  proof (cases "0 < fifo_entries (fifo_step s) \<and> n + 1 < 32")
    case True
    from "1.IH" [OF c] True "1.prems"(3) show ?thesis unfolding eq by simp
  next
    case False
    then have eq2: "process_fifo_loop (fifo_step s) (n + 1) = (fifo_step s, n + 1)"
      by (rule process_fifo_loop_stop)
    from "1.prems"(3) have "fifo_entries (fifo_step s) = 0" unfolding eq eq2 by simp
    then show ?thesis unfolding eq eq2 fst_conv by (rule fifo_step_empty)
  qed
qed

lemma apply_fifo_op_entries:
  assumes "0 \<le> fifo_entries s" "fifo_entries s \<le> PVR_FIFO_SIZE"
  shows "fifo_entries (apply_fifo_op s x) = fifo_entries s + op_accepted s x - op_processed s x \<and>
         0 \<le> fifo_entries (apply_fifo_op s x) \<and> fifo_entries (apply_fifo_op s x) \<le> PVR_FIFO_SIZE"
proof (cases x)
  case (Push c d)
  then show ?thesis using assms by (simp add: push_fifo_entries)
next
  case Drain
  then show ?thesis
    using assms process_fifo_loop_count [OF assms(1), of 0]
    by (simp add: pvr_3d_process_fifo_def)
qed

lemma run_fifo_ops_entries:
  "0 \<le> fifo_entries s \<Longrightarrow> fifo_entries s \<le> PVR_FIFO_SIZE \<Longrightarrow>
   fifo_entries (run_fifo_ops s ops) = fifo_entries s + writes_accepted s ops - drains_processed s ops \<and>
   0 \<le> fifo_entries (run_fifo_ops s ops) \<and> fifo_entries (run_fifo_ops s ops) \<le> PVR_FIFO_SIZE"
proof (induction ops arbitrary: s)
  case Nil
  then show ?case by simp
next
  case (Cons x xs)
  from apply_fifo_op_entries [OF Cons.prems, of x]
  have a: "fifo_entries (apply_fifo_op s x) = fifo_entries s + op_accepted s x - op_processed s x"
    and b: "0 \<le> fifo_entries (apply_fifo_op s x)"
    and c: "fifo_entries (apply_fifo_op s x) \<le> PVR_FIFO_SIZE" by simp_all
  from Cons.IH [OF b c] show ?case by (simp add: a)
qed

lemma process_fifo_single:
  assumes "fifo_entries s = 1"
  shows "pvr_3d_process_fifo s = fifo_step s"
proof -
  have 1: "process_fifo_loop s 0 = process_fifo_loop (fifo_step s) (0 + 1)"
    by (rule process_fifo_loop_continue) (simp add: assms)
  have 2: "process_fifo_loop (fifo_step s) (0 + 1) = (fifo_step s, 0 + 1)"
    by (rule process_fifo_loop_stop) (simp add: fifo_step_entries assms)
  show ?thesis unfolding pvr_3d_process_fifo_def 1 2 by simp
qed

lemma pushes_fill:
  "0 \<le> fifo_entries s \<Longrightarrow> fifo_entries s \<le> PVR_FIFO_SIZE \<Longrightarrow>
   fifo_entries (run_fifo_ops s (replicate n (Push c d))) = min PVR_FIFO_SIZE (fifo_entries s + int n)"
proof (induction n arbitrary: s)
  case 0
  then show ?case by simp
next
  case (Suc n)
  have "0 \<le> fifo_entries (pvr_3d_push_fifo s c d)" "fifo_entries (pvr_3d_push_fifo s c d) \<le> PVR_FIFO_SIZE"
    using Suc.prems by (simp_all add: push_fifo_entries)
  from Suc.IH [OF this] show ?case using Suc.prems by (simp add: push_fifo_entries add.assoc)
qed

text \<open>
  Claim C4. Start from a state whose entry counter is within \<open>[0, 4096]\<close> (it is 0 after
  a reset). After every sequence of pushes and drains the counter equals its initial value
  plus the number of accepted pushes minus the number of entries the drains processed, and
  it is within \<open>[0, 4096]\<close>. If the counter equals the capacity, a push leaves the counter,
  the buffer and the write cursor unchanged and sets the full flag. If a drain of a
  non-empty FIFO brings the counter to 0, the empty flag is set afterwards.
\<close>

theorem fifo_counter_invariant:
  assumes "0 \<le> fifo_entries s" and "fifo_entries s \<le> PVR_FIFO_SIZE"
  shows "fifo_entries (run_fifo_ops s ops)
           = fifo_entries s + writes_accepted s ops - drains_processed s ops \<and>
         0 \<le> fifo_entries (run_fifo_ops s ops) \<and>
         fifo_entries (run_fifo_ops s ops) \<le> PVR_FIFO_SIZE \<and>
         (fifo_entries (run_fifo_ops s ops) = PVR_FIFO_SIZE \<longrightarrow>
            fifo_entries (pvr_3d_push_fifo (run_fifo_ops s ops) c d) = PVR_FIFO_SIZE \<and>
            fifo (pvr_3d_push_fifo (run_fifo_ops s ops) c d) = fifo (run_fifo_ops s ops) \<and>
            fifo_write_ptr (pvr_3d_push_fifo (run_fifo_ops s ops) c d)
              = fifo_write_ptr (run_fifo_ops s ops) \<and>
            status_reg (pvr_3d_push_fifo (run_fifo_ops s ops) c d) AND PVR_3D_STAT_FIFO_FULL
              = PVR_3D_STAT_FIFO_FULL) \<and>
         (0 < fifo_entries (run_fifo_ops s ops) \<and>
          fifo_entries (pvr_3d_process_fifo (run_fifo_ops s ops)) = 0 \<longrightarrow>
            status_reg (pvr_3d_process_fifo (run_fifo_ops s ops)) AND PVR_3D_STAT_FIFO_EMPTY
              = PVR_3D_STAT_FIFO_EMPTY)"
proof -
  let ?t = "run_fifo_ops s ops"
  have full: "fifo_entries ?t = PVR_FIFO_SIZE \<longrightarrow>
            fifo_entries (pvr_3d_push_fifo ?t c d) = PVR_FIFO_SIZE \<and>
            fifo (pvr_3d_push_fifo ?t c d) = fifo ?t \<and>
            fifo_write_ptr (pvr_3d_push_fifo ?t c d) = fifo_write_ptr ?t \<and>
            status_reg (pvr_3d_push_fifo ?t c d) AND PVR_3D_STAT_FIFO_FULL = PVR_3D_STAT_FIFO_FULL"
  proof
    assume e: "fifo_entries ?t = PVR_FIFO_SIZE"
    then have "PVR_FIFO_SIZE \<le> fifo_entries ?t" by simp
    from push_fifo_full [OF this] show "fifo_entries (pvr_3d_push_fifo ?t c d) = PVR_FIFO_SIZE \<and>
            fifo (pvr_3d_push_fifo ?t c d) = fifo ?t \<and>
            fifo_write_ptr (pvr_3d_push_fifo ?t c d) = fifo_write_ptr ?t \<and>
            status_reg (pvr_3d_push_fifo ?t c d) AND PVR_3D_STAT_FIFO_FULL = PVR_3D_STAT_FIFO_FULL"
      using e by (simp add: full_flag_set)
  qed
  have empty: "0 < fifo_entries ?t \<and> fifo_entries (pvr_3d_process_fifo ?t) = 0 \<longrightarrow>
       status_reg (pvr_3d_process_fifo ?t) AND PVR_3D_STAT_FIFO_EMPTY = PVR_3D_STAT_FIFO_EMPTY"
    unfolding pvr_3d_process_fifo_def
    using process_fifo_loop_empty [of ?t 0] by simp
  from run_fifo_ops_entries [OF assms, of ops] full empty show ?thesis by blast
qed

theorem fifo_counter_invariant_witness:
  "0 \<le> fifo_entries zero_state \<and> fifo_entries zero_state \<le> PVR_FIFO_SIZE \<and>
   fifo_entries (run_fifo_ops zero_state (replicate 4096 (Push 4 0))) = PVR_FIFO_SIZE \<and>
   fifo_entries (pvr_3d_push_fifo (run_fifo_ops zero_state (replicate 4096 (Push 4 0))) 4 0)
     = PVR_FIFO_SIZE \<and>
   status_reg (pvr_3d_push_fifo (run_fifo_ops zero_state (replicate 4096 (Push 4 0))) 4 0)
     AND PVR_3D_STAT_FIFO_FULL = PVR_3D_STAT_FIFO_FULL \<and>
   0 < fifo_entries (run_fifo_ops zero_state [Push 4 0]) \<and>
   fifo_entries (pvr_3d_process_fifo (run_fifo_ops zero_state [Push 4 0])) = 0 \<and>
   status_reg (pvr_3d_process_fifo (run_fifo_ops zero_state [Push 4 0]))
     AND PVR_3D_STAT_FIFO_EMPTY = PVR_3D_STAT_FIFO_EMPTY"
proof -
  have z: "0 \<le> fifo_entries zero_state" "fifo_entries zero_state \<le> PVR_FIFO_SIZE"
    by (simp_all add: zero_state_def)
  have f: "fifo_entries (run_fifo_ops zero_state (replicate 4096 (Push 4 0))) = PVR_FIFO_SIZE"
    using pushes_fill [OF z, of 4096 4 0] by (simp add: zero_state_def)
  have o: "fifo_entries (run_fifo_ops zero_state [Push 4 0]) = 1"
    by (simp add: push_fifo_entries zero_state_def)
  have d: "fifo_entries (pvr_3d_process_fifo (run_fifo_ops zero_state [Push 4 0])) = 0"
    by (simp only: process_fifo_single [OF o] fifo_step_entries o)
  show ?thesis
    using z f o d
      fifo_counter_invariant [OF z, of "replicate 4096 (Push 4 0)" 4 0]
      fifo_counter_invariant [OF z, of "[Push 4 0]" 4 0]
    by simp
qed

section \<open>Vertex assembly, polygon setup and tile binning\<close>

lemma setup_polygon_full:
  assumes "num_polygons s \<ge> PVR_MAX_POLYGONS"
  shows "pvr_3d_setup_polygon s = s"
  unfolding pvr_3d_setup_polygon_def by (rule if_P [OF assms])

lemma distribute_fields:
  "polygon_buffer (pvr_3d_distribute_to_tiles s p) = polygon_buffer s"
  "num_polygons (pvr_3d_distribute_to_tiles s p) = num_polygons s"
  "vertex_buffer (pvr_3d_distribute_to_tiles s p) = vertex_buffer s"
  "current_vertex (pvr_3d_distribute_to_tiles s p) = current_vertex s"
  by ((subst distribute_frame, simp)+)

lemma setup_polygon_new:
  assumes "\<not> num_polygons s \<ge> PVR_MAX_POLYGONS"
  shows "num_polygons (pvr_3d_setup_polygon s) = num_polygons s + 1"
    and "polygon_buffer (pvr_3d_setup_polygon s) =
         (polygon_buffer s)(num_polygons s :=
            (polygon_buffer s (num_polygons s))\<lparr>num_vertices := 3,
               vertices := [vertex_buffer s 0, vertex_buffer s 1, vertex_buffer s 2],
               texture_addr := t_addr (textures s (current_texture s)),
               control_flags := poly_control s,
               z_sort_value := f2u32 ((pos_z (vertex_buffer s 0) + pos_z (vertex_buffer s 1)
                                        + pos_z (vertex_buffer s 2)) * 1365)\<rparr>)"
    and "vertex_buffer (pvr_3d_setup_polygon s) = vertex_buffer s"
    and "tiles (pvr_3d_setup_polygon s) =
         tiles (pvr_3d_distribute_to_tiles
           (s\<lparr>polygon_buffer := (polygon_buffer s)(num_polygons s :=
            (polygon_buffer s (num_polygons s))\<lparr>num_vertices := 3,
               vertices := [vertex_buffer s 0, vertex_buffer s 1, vertex_buffer s 2],
               texture_addr := t_addr (textures s (current_texture s)),
               control_flags := poly_control s,
               z_sort_value := f2u32 ((pos_z (vertex_buffer s 0) + pos_z (vertex_buffer s 1)
                                        + pos_z (vertex_buffer s 2)) * 1365)\<rparr>)\<rparr>)
           (num_polygons s))"
  unfolding pvr_3d_setup_polygon_def Let_def if_not_P [OF assms]
  by (simp_all add: distribute_fields z_sort_key_def)

lemma dispatch_vertex_open:
  assumes "current_vertex s + 1 < 3"
  shows "fifo_dispatch s 0x01 dat =
         s\<lparr>vertex_buffer := (vertex_buffer s)
              (current_vertex s := vertex_of_command s dat (vertex_buffer s (current_vertex s))),
           current_vertex := current_vertex s + 1\<rparr>"
  using assms unfolding fifo_dispatch_def Let_def vertex_of_command_def by simp

lemma dispatch_vertex_close:
  assumes "\<not> current_vertex s + 1 < 3"
  shows "fifo_dispatch s 0x01 dat =
         (pvr_3d_setup_polygon
           (s\<lparr>vertex_buffer := (vertex_buffer s)
              (current_vertex s := vertex_of_command s dat (vertex_buffer s (current_vertex s))),
             current_vertex := current_vertex s + 1\<rparr>))\<lparr>current_vertex := 0\<rparr>"
  using assms unfolding fifo_dispatch_def Let_def vertex_of_command_def by simp

lemma fifo_advance_fields:
  "current_vertex (fifo_advance s) = current_vertex s"
  "vertex_buffer (fifo_advance s) = vertex_buffer s"
  "polygon_buffer (fifo_advance s) = polygon_buffer s"
  "num_polygons (fifo_advance s) = num_polygons s"
  "textures (fifo_advance s) = textures s"
  "current_texture (fifo_advance s) = current_texture s"
  "poly_control (fifo_advance s) = poly_control s"
  "fb_width (fifo_advance s) = fb_width s"
  "fb_height (fifo_advance s) = fb_height s"
  "tiles (fifo_advance s) = tiles s"
  "fifo (fifo_advance s) = fifo s"
  "fifo_read_ptr (fifo_advance s) = c_mod (fifo_read_ptr s + 1) PVR_FIFO_SIZE"
  "tile_size (fifo_advance s) = tile_size s"
  "num_tiles_x (fifo_advance s) = num_tiles_x s"
  "num_tiles_y (fifo_advance s) = num_tiles_y s"
  by (simp_all add: fifo_advance_def Let_def)

text \<open>A drain step on a vertex command that leaves the triangle open.\<close>

lemma fifo_step_vertex_open:
  assumes "fe_command (fifo s (fifo_read_ptr s)) = 0x01" and "current_vertex s + 1 < 3"
  shows "current_vertex (fifo_step s) = current_vertex s + 1"
    and "vertex_buffer (fifo_step s) = (vertex_buffer s)
           (current_vertex s := vertex_of_command s (fe_data (fifo s (fifo_read_ptr s)))
                                   (vertex_buffer s (current_vertex s)))"
    and "polygon_buffer (fifo_step s) = polygon_buffer s"
    and "num_polygons (fifo_step s) = num_polygons s"
    and "textures (fifo_step s) = textures s"
    and "current_texture (fifo_step s) = current_texture s"
    and "poly_control (fifo_step s) = poly_control s"
    and "fb_width (fifo_step s) = fb_width s"
    and "fb_height (fifo_step s) = fb_height s"
    and "tiles (fifo_step s) = tiles s"
    and "tile_size (fifo_step s) = tile_size s"
    and "num_tiles_x (fifo_step s) = num_tiles_x s"
    and "num_tiles_y (fifo_step s) = num_tiles_y s"
  unfolding fifo_step_def Let_def assms(1) fifo_advance_fields
    dispatch_vertex_open [OF assms(2)]
  by simp_all

text \<open>A drain step on the vertex command that completes the triangle.\<close>

lemma fifo_step_vertex_close:
  assumes "fe_command (fifo s (fifo_read_ptr s)) = 0x01" and "\<not> current_vertex s + 1 < 3"
  shows "current_vertex (fifo_step s) = 0"
    and "fifo_step s = fifo_advance
           ((pvr_3d_setup_polygon
              (s\<lparr>vertex_buffer := (vertex_buffer s)
                 (current_vertex s := vertex_of_command s (fe_data (fifo s (fifo_read_ptr s)))
                                         (vertex_buffer s (current_vertex s))),
                current_vertex := current_vertex s + 1\<rparr>))\<lparr>current_vertex := 0\<rparr>)"
  unfolding fifo_step_def Let_def assms(1) fifo_advance_fields
    dispatch_vertex_close [OF assms(2)]
  by simp_all

lemma fifo_step_fifo:
  "fifo (fifo_step s) = fifo s"
  "fifo_read_ptr (fifo_step s) = c_mod (fifo_read_ptr s + 1) PVR_FIFO_SIZE"
  unfolding fifo_step_def Let_def fifo_advance_fields
  by (simp_all only: fifo_dispatch_fields)

lemma process_fifo_three:
  assumes "fifo_entries s = 3"
  shows "pvr_3d_process_fifo s = fifo_step (fifo_step (fifo_step s))"
proof -
  have 1: "process_fifo_loop s 0 = process_fifo_loop (fifo_step s) (0 + 1)"
    by (rule process_fifo_loop_continue) (simp add: assms)
  have 2: "process_fifo_loop (fifo_step s) (0 + 1)
             = process_fifo_loop (fifo_step (fifo_step s)) (0 + 1 + 1)"
    by (rule process_fifo_loop_continue) (simp add: fifo_step_entries assms)
  have 3: "process_fifo_loop (fifo_step (fifo_step s)) (0 + 1 + 1)
             = process_fifo_loop (fifo_step (fifo_step (fifo_step s))) (0 + 1 + 1 + 1)"
    by (rule process_fifo_loop_continue) (simp add: fifo_step_entries assms)
  have 4: "process_fifo_loop (fifo_step (fifo_step (fifo_step s))) (0 + 1 + 1 + 1)
             = (fifo_step (fifo_step (fifo_step s)), 0 + 1 + 1 + 1)"
    by (rule process_fifo_loop_stop) (simp add: fifo_step_entries assms)
  show ?thesis unfolding pvr_3d_process_fifo_def 1 2 3 4 by simp
qed

lemma three_vertices_steps:
  assumes q: "three_vertices_queued s d0 d1 d2" and cv: "current_vertex s = 0"
  shows "current_vertex (fifo_step (fifo_step s)) = 2"
    and "vertex_buffer (fifo_step (fifo_step s)) = (vertex_buffer s)
           (0 := vertex_of_command s d0 (vertex_buffer s 0),
            1 := vertex_of_command s d1 (vertex_buffer s 1))"
    and "polygon_buffer (fifo_step (fifo_step s)) = polygon_buffer s"
    and "num_polygons (fifo_step (fifo_step s)) = num_polygons s"
    and "textures (fifo_step (fifo_step s)) = textures s"
    and "current_texture (fifo_step (fifo_step s)) = current_texture s"
    and "poly_control (fifo_step (fifo_step s)) = poly_control s"
    and "fb_width (fifo_step (fifo_step s)) = fb_width s"
    and "fb_height (fifo_step (fifo_step s)) = fb_height s"
    and "fifo (fifo_step (fifo_step s)) (fifo_read_ptr (fifo_step (fifo_step s)))
           = \<lparr>fe_command = 0x01, fe_data = d2\<rparr>"
    and "tiles (fifo_step (fifo_step s)) = tiles s"
    and "tile_size (fifo_step (fifo_step s)) = tile_size s"
    and "num_tiles_x (fifo_step (fifo_step s)) = num_tiles_x s"
    and "num_tiles_y (fifo_step (fifo_step s)) = num_tiles_y s"
proof -
  let ?s1 = "fifo_step s"
  have c0: "fe_command (fifo s (fifo_read_ptr s)) = 0x01" and e0: "fe_data (fifo s (fifo_read_ptr s)) = d0"
    using q by (simp_all add: three_vertices_queued_def)
  have o0: "current_vertex s + 1 < 3" using cv by simp
  note s1 = fifo_step_vertex_open [OF c0 o0]
  have f1: "fifo ?s1 (fifo_read_ptr ?s1) = \<lparr>fe_command = 0x01, fe_data = d1\<rparr>"
    using q by (simp add: fifo_step_fifo three_vertices_queued_def next_ptr_def)
  have c1: "fe_command (fifo ?s1 (fifo_read_ptr ?s1)) = 0x01" by (simp add: f1)
  have o1: "current_vertex ?s1 + 1 < 3" using cv by (simp add: s1)
  note s2 = fifo_step_vertex_open [OF c1 o1]
  show "current_vertex (fifo_step ?s1) = 2" by (simp add: s2 s1 cv)
  show "vertex_buffer (fifo_step ?s1) = (vertex_buffer s)
           (0 := vertex_of_command s d0 (vertex_buffer s 0),
            1 := vertex_of_command s d1 (vertex_buffer s 1))"
    by (simp add: s2 s1 cv f1 e0 vertex_of_command_def)
  show "polygon_buffer (fifo_step ?s1) = polygon_buffer s" by (simp add: s2 s1)
  show "num_polygons (fifo_step ?s1) = num_polygons s" by (simp add: s2 s1)
  show "textures (fifo_step ?s1) = textures s" by (simp add: s2 s1)
  show "current_texture (fifo_step ?s1) = current_texture s" by (simp add: s2 s1)
  show "poly_control (fifo_step ?s1) = poly_control s" by (simp add: s2 s1)
  show "fb_width (fifo_step ?s1) = fb_width s" by (simp add: s2 s1)
  show "fb_height (fifo_step ?s1) = fb_height s" by (simp add: s2 s1)
  show "fifo (fifo_step ?s1) (fifo_read_ptr (fifo_step ?s1)) = \<lparr>fe_command = 0x01, fe_data = d2\<rparr>"
    using q by (simp add: fifo_step_fifo three_vertices_queued_def next_ptr_def)
  show "tiles (fifo_step ?s1) = tiles s" by (simp add: s2 s1)
  show "tile_size (fifo_step ?s1) = tile_size s" by (simp add: s2 s1)
  show "num_tiles_x (fifo_step ?s1) = num_tiles_x s" by (simp add: s2 s1)
  show "num_tiles_y (fifo_step ?s1) = num_tiles_y s" by (simp add: s2 s1)
qed

lemma vertex_of_command_cong:
  "fb_width a = fb_width b \<Longrightarrow> fb_height a = fb_height b \<Longrightarrow>
   vertex_of_command a d v = vertex_of_command b d v"
  by (simp add: vertex_of_command_def)

lemma three_vertices_last_step:
  assumes q: "three_vertices_queued s d0 d1 d2" and cv: "current_vertex s = 0"
  shows "fifo_step (fifo_step (fifo_step s)) = fifo_advance
           ((pvr_3d_setup_polygon
              ((fifo_step (fifo_step s))\<lparr>vertex_buffer := (vertex_buffer s)
                 (0 := vertex_of_command s d0 (vertex_buffer s 0),
                  1 := vertex_of_command s d1 (vertex_buffer s 1),
                  2 := vertex_of_command s d2 (vertex_buffer s 2)),
                current_vertex := 3\<rparr>))\<lparr>current_vertex := 0\<rparr>)"
proof -
  let ?s2 = "fifo_step (fifo_step s)"
  note f = three_vertices_steps [OF q cv]
  have c2: "fe_command (fifo ?s2 (fifo_read_ptr ?s2)) = 0x01" by (simp add: f)
  have e2: "fe_data (fifo ?s2 (fifo_read_ptr ?s2)) = d2" by (simp add: f)
  have o2: "\<not> current_vertex ?s2 + 1 < 3" by (simp add: f)
  have v: "vertex_of_command ?s2 d2 (vertex_buffer ?s2 (current_vertex ?s2))
             = vertex_of_command s d2 (vertex_buffer s 2)"
    by (simp add: f vertex_of_command_cong [of ?s2 s])
  show ?thesis
    unfolding fifo_step_vertex_close(2) [OF c2 o2] e2 v
    by (simp add: f)
qed

lemma three_vertices_polygon:
  assumes q: "three_vertices_queued s d0 d1 d2" and cv: "current_vertex s = 0"
    and n: "num_polygons s < PVR_MAX_POLYGONS"
  shows "num_polygons (pvr_3d_process_fifo s) = num_polygons s + 1"
    and "polygon_buffer (pvr_3d_process_fifo s)
           = (polygon_buffer s)(num_polygons s := assembled_polygon s d0 d1 d2)"
    and "current_vertex (pvr_3d_process_fifo s) = 0"
proof -
  let ?s2 = "fifo_step (fifo_step s)"
  let ?u = "?s2\<lparr>vertex_buffer := (vertex_buffer s)
                 (0 := vertex_of_command s d0 (vertex_buffer s 0),
                  1 := vertex_of_command s d1 (vertex_buffer s 1),
                  2 := vertex_of_command s d2 (vertex_buffer s 2)),
                current_vertex := 3\<rparr>"
  note f = three_vertices_steps [OF q cv]
  have e: "fifo_entries s = 3" using q by (simp add: three_vertices_queued_def)
  have p: "pvr_3d_process_fifo s = fifo_advance ((pvr_3d_setup_polygon ?u)\<lparr>current_vertex := 0\<rparr>)"
    unfolding process_fifo_three [OF e] by (rule three_vertices_last_step [OF q cv])
  have nu: "\<not> num_polygons ?u \<ge> PVR_MAX_POLYGONS" using n by (simp add: f)
  note sp = setup_polygon_new [OF nu]
  show "num_polygons (pvr_3d_process_fifo s) = num_polygons s + 1"
    unfolding p fifo_advance_fields by (simp add: sp f)
  show "polygon_buffer (pvr_3d_process_fifo s)
           = (polygon_buffer s)(num_polygons s := assembled_polygon s d0 d1 d2)"
    unfolding p fifo_advance_fields by (simp add: sp f assembled_polygon_def Let_def)
  show "current_vertex (pvr_3d_process_fifo s) = 0"
    unfolding p fifo_advance_fields by simp
qed

lemma three_vertices_buffer_full:
  assumes q: "three_vertices_queued s d0 d1 d2" and cv: "current_vertex s = 0"
    and n: "num_polygons s \<ge> PVR_MAX_POLYGONS"
  shows "num_polygons (pvr_3d_process_fifo s) = num_polygons s"
    and "polygon_buffer (pvr_3d_process_fifo s) = polygon_buffer s"
proof -
  let ?s2 = "fifo_step (fifo_step s)"
  let ?u = "?s2\<lparr>vertex_buffer := (vertex_buffer s)
                 (0 := vertex_of_command s d0 (vertex_buffer s 0),
                  1 := vertex_of_command s d1 (vertex_buffer s 1),
                  2 := vertex_of_command s d2 (vertex_buffer s 2)),
                current_vertex := 3\<rparr>"
  note f = three_vertices_steps [OF q cv]
  have e: "fifo_entries s = 3" using q by (simp add: three_vertices_queued_def)
  have p: "pvr_3d_process_fifo s = fifo_advance ((pvr_3d_setup_polygon ?u)\<lparr>current_vertex := 0\<rparr>)"
    unfolding process_fifo_three [OF e] by (rule three_vertices_last_step [OF q cv])
  have nu: "num_polygons ?u \<ge> PVR_MAX_POLYGONS" using n by (simp add: f)
  show "num_polygons (pvr_3d_process_fifo s) = num_polygons s"
    unfolding p fifo_advance_fields setup_polygon_full [OF nu] by (simp add: f)
  show "polygon_buffer (pvr_3d_process_fifo s) = polygon_buffer s"
    unfolding p fifo_advance_fields setup_polygon_full [OF nu] by (simp add: f)
qed

text \<open>
  Claim C6 (amended). If exactly three vertex commands are queued, no vertex is open and
  the polygon buffer holds fewer than 2048 polygons, then their drain produces exactly one
  new polygon: the polygon count grows by one, the only slot of the polygon buffer that
  changes is the new one, the new polygon has \<open>num_vertices = 3\<close>, its vertices are the three
  decoded vertices, it carries the address of the current texture and the current
  polygon-control flags, and the open-vertex count is 0 afterwards.
\<close>

theorem three_vertices_make_one_polygon:
  assumes "three_vertices_queued s d0 d1 d2" and "current_vertex s = 0"
    and "num_polygons s < PVR_MAX_POLYGONS"
  shows "num_polygons (pvr_3d_process_fifo s) = num_polygons s + 1 \<and>
         polygon_buffer (pvr_3d_process_fifo s)
           = (polygon_buffer s)(num_polygons s := assembled_polygon s d0 d1 d2) \<and>
         num_vertices (polygon_buffer (pvr_3d_process_fifo s) (num_polygons s)) = 3 \<and>
         texture_addr (polygon_buffer (pvr_3d_process_fifo s) (num_polygons s))
           = t_addr (textures s (current_texture s)) \<and>
         control_flags (polygon_buffer (pvr_3d_process_fifo s) (num_polygons s)) = poly_control s \<and>
         current_vertex (pvr_3d_process_fifo s) = 0"
  using three_vertices_polygon [OF assms]
  by (simp add: assembled_polygon_def Let_def)

lemma running_bit_kept: "(x AND NOT 8) AND 1 = x AND (1 :: u32)"
  by (rule bit_word_eqI) (auto simp: bit_simps)

lemma running_bit_kept_simp: "(x AND - 9) AND 1 = x AND (1 :: u32)"
  using running_bit_kept [of x] by simp

lemma process_command_idle:
  assumes "fifo_idle s"
  shows "pvr_3d_process_command s c d = fifo_advance (fifo_dispatch (enqueue_idle s c d) c d)"
proof -
  have e: "fifo_entries s = 0" and p: "fifo_read_ptr s = fifo_write_ptr s"
    and r: "status_reg s AND 1 = 0"
    using assms by (simp_all add: fifo_idle_def)
  have push: "pvr_3d_push_fifo s c d =
      s\<lparr>fifo := (fifo s)(fifo_write_ptr s := \<lparr>fe_command = c, fe_data = d\<rparr>),
        fifo_write_ptr := c_mod (fifo_write_ptr s + 1) PVR_FIFO_SIZE, fifo_entries := 1\<rparr>"
    by (simp add: pvr_3d_push_fifo_def Let_def e)
  have one: "fifo_entries (enqueue_idle s c d) = 1" by (simp add: enqueue_idle_def)
  have nr: "status_reg (enqueue_idle s c d) AND PVR_3D_STAT_RUNNING = 0"
    using r by (simp add: enqueue_idle_def running_bit_kept_simp)
  have pc: "pvr_3d_process_command s c d = pvr_3d_process_fifo (enqueue_idle s c d)"
    unfolding pvr_3d_process_command_def Let_def push using nr
    by (simp add: enqueue_idle_def)
  have hd: "fifo (enqueue_idle s c d) (fifo_read_ptr (enqueue_idle s c d))
              = \<lparr>fe_command = c, fe_data = d\<rparr>"
    by (simp add: enqueue_idle_def p)
  show ?thesis
    unfolding pc process_fifo_single [OF one] fifo_step_def Let_def hd by simp
qed

lemma upto_cons: "i \<le> j \<Longrightarrow> [i..j] = i # [i + 1..j]"
  by (rule upto_rec1)

lemma fold_related:
  assumes "\<And>x a b. R a b \<Longrightarrow> R (f x a) (f x b)" and "R a b"
  shows "R (fold f xs a) (fold f xs b)"
  using assms(2) by (induction xs arbitrary: a b) (simp_all add: assms(1))

lemma distribute_tile_fields:
  "tiles (distribute_tile p y x s) =
     (tiles s)(y * num_tiles_x s + x := tile_append (tiles s (y * num_tiles_x s + x)) p)"
  "num_tiles_x (distribute_tile p y x s) = num_tiles_x s"
  by (simp_all add: distribute_tile_def Let_def)

lemma upto_0_1: "[0..1] = [0, 1 :: int]"
  by (simp add: upto_cons)

lemma distribute_small_triangle:
  assumes "tile_size s = 32" and "2 \<le> num_tiles_x s" and "2 \<le> num_tiles_y s"
    and "polygon_bbox (polygon_buffer s p) = (0, 0, 10, 10)"
  shows "tiles (pvr_3d_distribute_to_tiles s p) =
           (tiles s)(0 := tile_append (tiles s 0) p,
                     1 := tile_append (tiles s 1) p,
                     num_tiles_x s := tile_append (tiles s (num_tiles_x s)) p,
                     num_tiles_x s + 1 := tile_append (tiles s (num_tiles_x s + 1)) p)"
proof -
  have d: "pvr_3d_distribute_to_tiles s p =
        distribute_tile p 1 1 (distribute_tile p 1 0 (distribute_tile p 0 1 (distribute_tile p 0 0 s)))"
    using assms(2,3)
    unfolding pvr_3d_distribute_to_tiles_def assms(1,4)
    by (simp add: Let_def f2i_def c_div_def upto_0_1)
  show ?thesis
    unfolding d distribute_tile_fields using assms(2) by simp
qed

lemma distribute_tile_same_grid:
  "same_grid a b \<Longrightarrow> same_grid (distribute_tile p y x a) (distribute_tile p y x b)"
  by (simp add: same_grid_def distribute_tile_fields)

lemma distribute_cong:
  assumes "polygon_bbox (polygon_buffer a p) = polygon_bbox (polygon_buffer b p)"
    and "tile_size a = tile_size b" and "num_tiles_x a = num_tiles_x b"
    and "num_tiles_y a = num_tiles_y b" and "tiles a = tiles b"
  shows "tiles (pvr_3d_distribute_to_tiles a p) = tiles (pvr_3d_distribute_to_tiles b p)"
proof -
  have g: "same_grid a b" using assms by (simp add: same_grid_def)
  have inner: "\<And>y xs a b. same_grid a b \<Longrightarrow>
      same_grid (fold (distribute_tile p y) xs a) (fold (distribute_tile p y) xs b)"
    by (rule fold_related [where R = same_grid]) (rule distribute_tile_same_grid)
  have outer: "\<And>xs ys. same_grid (fold (\<lambda>y. fold (distribute_tile p y) xs) ys a)
                                 (fold (\<lambda>y. fold (distribute_tile p y) xs) ys b)"
    by (rule fold_related [where R = same_grid, OF _ g]) (rule inner)
  have "same_grid (pvr_3d_distribute_to_tiles a p) (pvr_3d_distribute_to_tiles b p)"
    unfolding pvr_3d_distribute_to_tiles_def Let_def assms(1,2,3,4)
    by (simp only: outer split: prod.split) (simp add: outer)
  then show ?thesis by (simp add: same_grid_def)
qed

text \<open>
  The tiles after the drain of three vertex commands are those of binning the assembled
  polygon into the tile grid of the initial state.
\<close>

lemma three_vertices_tiles:
  assumes q: "three_vertices_queued s d0 d1 d2" and cv: "current_vertex s = 0"
    and n: "num_polygons s < PVR_MAX_POLYGONS"
  shows "tiles (pvr_3d_process_fifo s) =
         tiles (pvr_3d_distribute_to_tiles
                  (s\<lparr>polygon_buffer := (polygon_buffer s)
                        (num_polygons s := assembled_polygon s d0 d1 d2)\<rparr>)
                  (num_polygons s))"
proof -
  let ?s2 = "fifo_step (fifo_step s)"
  let ?u = "?s2\<lparr>vertex_buffer := (vertex_buffer s)
                 (0 := vertex_of_command s d0 (vertex_buffer s 0),
                  1 := vertex_of_command s d1 (vertex_buffer s 1),
                  2 := vertex_of_command s d2 (vertex_buffer s 2)),
                current_vertex := 3\<rparr>"
  note f = three_vertices_steps [OF q cv]
  have e: "fifo_entries s = 3" using q by (simp add: three_vertices_queued_def)
  have p: "pvr_3d_process_fifo s = fifo_advance ((pvr_3d_setup_polygon ?u)\<lparr>current_vertex := 0\<rparr>)"
    unfolding process_fifo_three [OF e] by (rule three_vertices_last_step [OF q cv])
  have nu: "\<not> num_polygons ?u \<ge> PVR_MAX_POLYGONS" using n by (simp add: f)
  have t: "tiles (pvr_3d_process_fifo s) = tiles (pvr_3d_setup_polygon ?u)"
    unfolding p fifo_advance_fields by simp
  have nn: "num_polygons ?u = num_polygons s" by (simp add: f)
  show ?thesis
    unfolding t setup_polygon_new(4) [OF nu] nn
    by (rule distribute_cong) (simp_all add: f assembled_polygon_def Let_def)
qed

lemma push_fifo_other_fields:
  "current_vertex (pvr_3d_push_fifo s c d) = current_vertex s"
  "num_polygons (pvr_3d_push_fifo s c d) = num_polygons s"
  "polygon_buffer (pvr_3d_push_fifo s c d) = polygon_buffer s"
  "vertex_buffer (pvr_3d_push_fifo s c d) = vertex_buffer s"
  "tiles (pvr_3d_push_fifo s c d) = tiles s"
  "tile_size (pvr_3d_push_fifo s c d) = tile_size s"
  "num_tiles_x (pvr_3d_push_fifo s c d) = num_tiles_x s"
  "num_tiles_y (pvr_3d_push_fifo s c d) = num_tiles_y s"
  "fb_width (pvr_3d_push_fifo s c d) = fb_width s"
  "fb_height (pvr_3d_push_fifo s c d) = fb_height s"
  "textures (pvr_3d_push_fifo s c d) = textures s"
  "current_texture (pvr_3d_push_fifo s c d) = current_texture s"
  "poly_control (pvr_3d_push_fifo s c d) = poly_control s"
  by (simp_all add: pvr_3d_push_fifo_def Let_def)

lemma queue3_fields:
  "current_vertex (queue3 s d0 d1 d2) = current_vertex s"
  "num_polygons (queue3 s d0 d1 d2) = num_polygons s"
  "polygon_buffer (queue3 s d0 d1 d2) = polygon_buffer s"
  "vertex_buffer (queue3 s d0 d1 d2) = vertex_buffer s"
  "tiles (queue3 s d0 d1 d2) = tiles s"
  "tile_size (queue3 s d0 d1 d2) = tile_size s"
  "num_tiles_x (queue3 s d0 d1 d2) = num_tiles_x s"
  "num_tiles_y (queue3 s d0 d1 d2) = num_tiles_y s"
  "fb_width (queue3 s d0 d1 d2) = fb_width s"
  "fb_height (queue3 s d0 d1 d2) = fb_height s"
  "textures (queue3 s d0 d1 d2) = textures s"
  "current_texture (queue3 s d0 d1 d2) = current_texture s"
  "poly_control (queue3 s d0 d1 d2) = poly_control s"
  unfolding queue3_def by (simp_all only: push_fifo_other_fields)

lemma queue3_queued:
  assumes "fifo_entries s = 0" and "fifo_read_ptr s = 0" and "fifo_write_ptr s = 0"
  shows "three_vertices_queued (queue3 s d0 d1 d2) d0 d1 d2"
  using assms
  by (simp add: queue3_def three_vertices_queued_def next_ptr_def pvr_3d_push_fifo_def
        Let_def c_mod_def c_div_def)

lemma demo_state_fields:
  "memory_size demo_state = 0x1000000" "fifo_entries demo_state = 0"
  "fifo_read_ptr demo_state = 0" "fifo_write_ptr demo_state = 0"
  "status_reg demo_state = 8" "num_tiles_x demo_state = 2" "num_tiles_y demo_state = 2"
  "tile_size demo_state = 32" "fb_width demo_state = 64" "fb_height demo_state = 64"
  "current_vertex demo_state = 0" "num_polygons demo_state = 0"
  "current_texture demo_state = 0" "poly_control demo_state = 0"
  "vertex_buffer demo_state = (\<lambda>_. zero_vertex)"
  "polygon_buffer demo_state = (\<lambda>_. zero_polygon)"
  "dma_src_addr demo_state = 0" "dma_dest_addr demo_state = 0" "dma_size demo_state = 0"
  "fb_stride demo_state = 64" "fb_format demo_state = 32"
  "z_buffer demo_state = (\<lambda>_. 0)" "vram demo_state = (\<lambda>_. 0)"
  "textures demo_state = (\<lambda>_. \<lparr>t_width = 0, t_height = 0, t_format = 0, t_addr = 0\<rparr>)"
  "registers demo_state = default_registers" "render_timer demo_state = False"
  "tile_num_polygons (tiles demo_state 0) = 0" "tile_num_polygons (tiles demo_state 1) = 0"
  "tile_num_polygons (tiles demo_state 2) = 0" "tile_num_polygons (tiles demo_state 3) = 0"
  "tile_max_polygons (tiles demo_state 0) = 64" "tile_max_polygons (tiles demo_state 1) = 64"
  "tile_max_polygons (tiles demo_state 2) = 64" "tile_max_polygons (tiles demo_state 3) = 64"
  unfolding demo_state_def pvr_3d_init_def
  by (simp_all add: Let_def pvr_reg_init_def pvr_3d_reset_def pvr_reg_reset_def zero_state_def
        upto_cons init_tile_def zero_tile_def)

lemma demo_triangle_bbox:
  "polygon_bbox (assembled_polygon (queue3 demo_state 0 160 163840) 0 160 163840) = (0, 0, 10, 10)"
  by (simp add: assembled_polygon_def Let_def vertex_of_command_def queue3_fields
        demo_state_fields polygon_bbox_def bbox_step_def u2f_def upto_cons zero_vertex_def
        drop_bit_eq_div)

text \<open>
  Claim C1 (evaluation of the code). The display is 64 by 64 pixels, so the grid has 2 by 2
  tiles of size 32. The drain of the vertex commands \<open>0x0\<close>, \<open>0xA0\<close>, \<open>0x28000\<close>
  assembles the triangle \<open>(0,0)\<close>, \<open>(10,0)\<close>, \<open>(0,10)\<close>, whose bounding box is
  \<open>[0,10] \<times> [0,10]\<close> and lies inside tile \<open>(0,0)\<close>. The binning appends the polygon to
  all four tiles of the grid: the last tile column and row are computed as
  \<open>(max + tile_size - 1) / tile_size\<close> and then used as inclusive loop bounds.
\<close>

theorem small_triangle_binned_into_four_tiles:
  "polygon_bbox (polygon_buffer (pvr_3d_process_fifo (queue3 demo_state 0 160 163840)) 0)
     = (0, 0, 10, 10) \<and>
   tile_size demo_state = 32 \<and>
   tile_num_polygons (tiles (pvr_3d_process_fifo (queue3 demo_state 0 160 163840)) 0) = 1 \<and>
   tile_num_polygons (tiles (pvr_3d_process_fifo (queue3 demo_state 0 160 163840)) 1) = 1 \<and>
   tile_num_polygons (tiles (pvr_3d_process_fifo (queue3 demo_state 0 160 163840)) 2) = 1 \<and>
   tile_num_polygons (tiles (pvr_3d_process_fifo (queue3 demo_state 0 160 163840)) 3) = 1 \<and>
   tile_polygon_list (tiles (pvr_3d_process_fifo (queue3 demo_state 0 160 163840)) 1) 0 = 0 \<and>
   tile_polygon_list (tiles (pvr_3d_process_fifo (queue3 demo_state 0 160 163840)) 2) 0 = 0 \<and>
   tile_polygon_list (tiles (pvr_3d_process_fifo (queue3 demo_state 0 160 163840)) 3) 0 = 0"
proof -
  let ?q = "queue3 demo_state 0 160 163840"
  let ?w = "?q\<lparr>polygon_buffer := (polygon_buffer ?q)
                 (0 := assembled_polygon ?q 0 160 163840)\<rparr>"
  have q: "three_vertices_queued ?q 0 160 163840"
    by (rule queue3_queued) (simp_all add: demo_state_fields)
  have cv: "current_vertex ?q = 0" by (simp add: queue3_fields demo_state_fields)
  have n: "num_polygons ?q < PVR_MAX_POLYGONS" by (simp add: queue3_fields demo_state_fields)
  have n0: "num_polygons ?q = 0" by (simp add: queue3_fields demo_state_fields)
  have pb: "polygon_buffer (pvr_3d_process_fifo ?q) 0 = assembled_polygon ?q 0 160 163840"
    unfolding three_vertices_polygon(2) [OF q cv n] n0 by simp
  have bb: "polygon_bbox (polygon_buffer ?w 0) = (0, 0, 10, 10)"
    using demo_triangle_bbox by simp
  have t: "tiles (pvr_3d_process_fifo ?q) =
           (tiles ?w)(0 := tile_append (tiles ?w 0) 0, 1 := tile_append (tiles ?w 1) 0,
                      num_tiles_x ?w := tile_append (tiles ?w (num_tiles_x ?w)) 0,
                      num_tiles_x ?w + 1 := tile_append (tiles ?w (num_tiles_x ?w + 1)) 0)"
    unfolding three_vertices_tiles [OF q cv n] n0
    by (rule distribute_small_triangle [OF _ _ _ bb])
       (simp_all add: queue3_fields demo_state_fields)
  show ?thesis
    unfolding pb t demo_triangle_bbox
    by (simp add: queue3_fields demo_state_fields tile_append_def Let_def)
qed

theorem three_vertices_make_one_polygon_witness:
  "three_vertices_queued (queue3 demo_state 0 160 163840) 0 160 163840 \<and>
   current_vertex (queue3 demo_state 0 160 163840) = 0 \<and>
   num_polygons (queue3 demo_state 0 160 163840) < PVR_MAX_POLYGONS \<and>
   num_polygons (pvr_3d_process_fifo (queue3 demo_state 0 160 163840)) = 1 \<and>
   num_vertices (polygon_buffer (pvr_3d_process_fifo (queue3 demo_state 0 160 163840)) 0) = 3 \<and>
   current_vertex (pvr_3d_process_fifo (queue3 demo_state 0 160 163840)) = 0"
proof -
  let ?q = "queue3 demo_state 0 160 163840"
  have q: "three_vertices_queued ?q 0 160 163840"
    by (rule queue3_queued) (simp_all add: demo_state_fields)
  have cv: "current_vertex ?q = 0" by (simp add: queue3_fields demo_state_fields)
  have n: "num_polygons ?q < PVR_MAX_POLYGONS" by (simp add: queue3_fields demo_state_fields)
  have n0: "num_polygons ?q = 0" by (simp add: queue3_fields demo_state_fields)
  note t = three_vertices_make_one_polygon [OF q cv n, unfolded n0]
  have 1: "num_polygons (pvr_3d_process_fifo ?q) = 1" using t by simp
  have 2: "num_vertices (polygon_buffer (pvr_3d_process_fifo ?q) 0) = 3" using t by blast
  have 3: "current_vertex (pvr_3d_process_fifo ?q) = 0" using t by blast
  show ?thesis by (intro conjI q cv n 1 2 3)
qed

lemma f2u32_nonneg: "0 \<le> q \<Longrightarrow> f2u32 q = word_of_int \<lfloor>q\<rfloor>"
  by (simp add: f2u32_def f2i_def)

lemma u2f_nonneg: "0 \<le> u2f w"
  unfolding u2f_def by (rule of_nat_0_le_iff)

lemma vertex_of_command_z_nonneg: "0 \<le> pos_z (vertex_of_command s d v)"
  using u2f_nonneg [of "drop_bit 20 d AND 0xfff"] by (simp add: vertex_of_command_def)

lemma floor_half_sum: "\<lfloor>(1 / 2 + 1 / 2 + 1 / 2) * 1365 :: rat\<rfloor> = 2047"
  by (rule floor_unique) simp_all

lemma floor_4095_4096: "\<lfloor>4095 / 4096 :: rat\<rfloor> = 0"
  by (rule floor_unique) simp_all

lemma round_4095_4096: "round (4095 / 4096 :: rat) = 1"
  unfolding round_def by (rule floor_unique) simp_all

text \<open>
  Claim C5 (amended). For every polygon finalized from three vertex commands, the stored
  z-sort key is the product \<open>(z0 + z1 + z2) * 1365\<close> truncated towards zero (the floor, as
  the depths are not negative); for \<open>z0 = z1 = z2 = 1/2\<close> the key is 2047. The conversion
  does not depend on a rounding mode.
\<close>

theorem z_sort_key_truncates:
  assumes "three_vertices_queued s d0 d1 d2" and "current_vertex s = 0"
    and "num_polygons s < PVR_MAX_POLYGONS"
  shows "z_sort_value (polygon_buffer (pvr_3d_process_fifo s) (num_polygons s)) =
           word_of_int \<lfloor>(pos_z (vertices (polygon_buffer (pvr_3d_process_fifo s) (num_polygons s)) ! 0)
                        + pos_z (vertices (polygon_buffer (pvr_3d_process_fifo s) (num_polygons s)) ! 1)
                        + pos_z (vertices (polygon_buffer (pvr_3d_process_fifo s) (num_polygons s)) ! 2))
                       * 1365\<rfloor> \<and>
         (pos_z (vertices (polygon_buffer (pvr_3d_process_fifo s) (num_polygons s)) ! 0) = 1 / 2 \<and>
          pos_z (vertices (polygon_buffer (pvr_3d_process_fifo s) (num_polygons s)) ! 1) = 1 / 2 \<and>
          pos_z (vertices (polygon_buffer (pvr_3d_process_fifo s) (num_polygons s)) ! 2) = 1 / 2 \<longrightarrow>
          z_sort_value (polygon_buffer (pvr_3d_process_fifo s) (num_polygons s)) = 2047)"
proof -
  let ?z0 = "pos_z (vertex_of_command s d0 (vertex_buffer s 0))"
  let ?z1 = "pos_z (vertex_of_command s d1 (vertex_buffer s 1))"
  let ?z2 = "pos_z (vertex_of_command s d2 (vertex_buffer s 2))"
  have nn: "0 \<le> (?z0 + ?z1 + ?z2) * 1365"
    using vertex_of_command_z_nonneg [of s d0] vertex_of_command_z_nonneg [of s d1]
      vertex_of_command_z_nonneg [of s d2] by simp
  have p: "polygon_buffer (pvr_3d_process_fifo s) (num_polygons s) = assembled_polygon s d0 d1 d2"
    unfolding three_vertices_polygon(2) [OF assms] by simp
  have k: "z_sort_value (assembled_polygon s d0 d1 d2) = word_of_int \<lfloor>(?z0 + ?z1 + ?z2) * 1365\<rfloor>"
    using f2u32_nonneg [OF nn] by (simp add: assembled_polygon_def Let_def)
  have v: "pos_z (vertices (assembled_polygon s d0 d1 d2) ! 0) = ?z0"
    "pos_z (vertices (assembled_polygon s d0 d1 d2) ! 1) = ?z1"
    "pos_z (vertices (assembled_polygon s d0 d1 d2) ! 2) = ?z2"
    by (simp_all add: assembled_polygon_def Let_def)
  have half: "?z0 = 1 / 2 \<and> ?z1 = 1 / 2 \<and> ?z2 = 1 / 2 \<longrightarrow>
              (word_of_int \<lfloor>(?z0 + ?z1 + ?z2) * 1365\<rfloor> :: u32) = 2047"
  proof
    assume h: "?z0 = 1 / 2 \<and> ?z1 = 1 / 2 \<and> ?z2 = 1 / 2"
    have "\<lfloor>(?z0 + ?z1 + ?z2) * 1365\<rfloor> = 2047"
      using h by (simp only: floor_half_sum)
    then show "(word_of_int \<lfloor>(?z0 + ?z1 + ?z2) * 1365\<rfloor> :: u32) = 2047" by simp
  qed
  show ?thesis unfolding p k v using half by blast
qed

theorem z_sort_key_truncates_witness:
  "three_vertices_queued (queue3 demo_state 0x80000000 0x80000000 0x80000000)
     0x80000000 0x80000000 0x80000000 \<and>
   current_vertex (queue3 demo_state 0x80000000 0x80000000 0x80000000) = 0 \<and>
   num_polygons (queue3 demo_state 0x80000000 0x80000000 0x80000000) < PVR_MAX_POLYGONS \<and>
   pos_z (vertices (polygon_buffer
     (pvr_3d_process_fifo (queue3 demo_state 0x80000000 0x80000000 0x80000000)) 0) ! 0) = 1 / 2 \<and>
   pos_z (vertices (polygon_buffer
     (pvr_3d_process_fifo (queue3 demo_state 0x80000000 0x80000000 0x80000000)) 0) ! 1) = 1 / 2 \<and>
   pos_z (vertices (polygon_buffer
     (pvr_3d_process_fifo (queue3 demo_state 0x80000000 0x80000000 0x80000000)) 0) ! 2) = 1 / 2 \<and>
   z_sort_value (polygon_buffer
     (pvr_3d_process_fifo (queue3 demo_state 0x80000000 0x80000000 0x80000000)) 0) = 2047"
proof -
  let ?q = "queue3 demo_state 0x80000000 0x80000000 0x80000000"
  have q: "three_vertices_queued ?q 0x80000000 0x80000000 0x80000000"
    by (rule queue3_queued) (simp_all add: demo_state_fields)
  have cv: "current_vertex ?q = 0" by (simp add: queue3_fields demo_state_fields)
  have n: "num_polygons ?q < PVR_MAX_POLYGONS" by (simp add: queue3_fields demo_state_fields)
  have n0: "num_polygons ?q = 0" by (simp add: queue3_fields demo_state_fields)
  have p: "polygon_buffer (pvr_3d_process_fifo ?q) 0
             = assembled_polygon ?q 0x80000000 0x80000000 0x80000000"
    unfolding three_vertices_polygon(2) [OF q cv n] n0 by simp
  have v: "pos_z (vertices (polygon_buffer (pvr_3d_process_fifo ?q) 0) ! 0) = 1 / 2"
    "pos_z (vertices (polygon_buffer (pvr_3d_process_fifo ?q) 0) ! 1) = 1 / 2"
    "pos_z (vertices (polygon_buffer (pvr_3d_process_fifo ?q) 0) ! 2) = 1 / 2"
    unfolding p
    by (simp_all add: assembled_polygon_def Let_def vertex_of_command_def u2f_def drop_bit_eq_div)
  have imp: "pos_z (vertices (polygon_buffer (pvr_3d_process_fifo ?q) 0) ! 0) = 1 / 2 \<and>
             pos_z (vertices (polygon_buffer (pvr_3d_process_fifo ?q) 0) ! 1) = 1 / 2 \<and>
             pos_z (vertices (polygon_buffer (pvr_3d_process_fifo ?q) 0) ! 2) = 1 / 2 \<longrightarrow>
             z_sort_value (polygon_buffer (pvr_3d_process_fifo ?q) 0) = 2047"
    using z_sort_key_truncates [OF q cv n, unfolded n0] by (rule conjunct2)
  have key: "z_sort_value (polygon_buffer (pvr_3d_process_fifo ?q) 0) = 2047"
    by (rule mp [OF imp]) (intro conjI v)
  show ?thesis by (intro conjI q cv n v key)
qed

text \<open>
  For three vertices of depth \<open>1/4096\<close> the product is \<open>4095/4096\<close>: the stored key is 0,
  while rounding to the nearest integer gives 1.
\<close>

theorem z_sort_key_not_rounded_counterexample:
  "pos_z (vertices (polygon_buffer
     (pvr_3d_process_fifo (queue3 demo_state 0x100000 0x100000 0x100000)) 0) ! 0) = 1 / 4096 \<and>
   pos_z (vertices (polygon_buffer
     (pvr_3d_process_fifo (queue3 demo_state 0x100000 0x100000 0x100000)) 0) ! 1) = 1 / 4096 \<and>
   pos_z (vertices (polygon_buffer
     (pvr_3d_process_fifo (queue3 demo_state 0x100000 0x100000 0x100000)) 0) ! 2) = 1 / 4096 \<and>
   z_sort_value (polygon_buffer
     (pvr_3d_process_fifo (queue3 demo_state 0x100000 0x100000 0x100000)) 0) = 0 \<and>
   round ((1 / 4096 + 1 / 4096 + 1 / 4096) * 1365 :: rat) = 1"
proof -
  let ?q = "queue3 demo_state 0x100000 0x100000 0x100000"
  have q: "three_vertices_queued ?q 0x100000 0x100000 0x100000"
    by (rule queue3_queued) (simp_all add: demo_state_fields)
  have cv: "current_vertex ?q = 0" by (simp add: queue3_fields demo_state_fields)
  have n: "num_polygons ?q < PVR_MAX_POLYGONS" by (simp add: queue3_fields demo_state_fields)
  have n0: "num_polygons ?q = 0" by (simp add: queue3_fields demo_state_fields)
  have p: "polygon_buffer (pvr_3d_process_fifo ?q) 0
             = assembled_polygon ?q 0x100000 0x100000 0x100000"
    unfolding three_vertices_polygon(2) [OF q cv n] n0 by simp
  show ?thesis
    unfolding p
    by (simp add: assembled_polygon_def Let_def vertex_of_command_def u2f_def drop_bit_eq_div
          f2u32_def f2i_def floor_4095_4096 round_4095_4096)
qed

section \<open>Instances on the initial state of a 64 by 64 display\<close>

lemma dma_demo_fields:
  "dma_src_addr dma_demo = 0" "dma_dest_addr dma_demo = 0x1000000" "dma_size dma_demo = 16"
  "memory_size dma_demo = 0x1000000"
  by (simp_all add: dma_demo_def pvr_reg_write_def reg_write_dma_def set_dma_def
        demo_state_fields drop_bit_eq_div)

theorem dma_out_of_range_skipped_but_done_witness:
  "memory_size dma_demo \<le> dma_dest_addr dma_demo \<and>
   vram (pvr_3d_dma_transfer dma_demo) = vram dma_demo \<and>
   dma_status (pvr_3d_dma_transfer dma_demo) AND PVR_DMA_DONE = PVR_DMA_DONE \<and>
   dma_status (pvr_3d_dma_transfer dma_demo) AND PVR_DMA_BUSY = 0 \<and>
   dma (registers (pvr_3d_dma_transfer dma_demo)) (PVR_DMA_STATUS div 4) AND PVR_DMA_DONE
     = PVR_DMA_DONE \<and>
   dma (registers (pvr_3d_dma_transfer dma_demo)) (PVR_DMA_STATUS div 4) AND PVR_DMA_BUSY = 0"
proof -
  have d: "memory_size dma_demo \<le> dma_dest_addr dma_demo"
    by (simp add: dma_demo_fields)
  then have h: "memory_size dma_demo \<le> dma_src_addr dma_demo \<or>
    memory_size dma_demo \<le> dma_dest_addr dma_demo \<or>
    memory_size dma_demo < dma_dest_addr dma_demo + dma_clamp_size (dma_size dma_demo)"
    by blast
  from dma_out_of_range_skipped_but_done [OF h] d show ?thesis by blast
qed

theorem unaligned_access_rejected_witness:
  "(0x1009 :: u32) AND 3 \<noteq> 0 \<and>
   pvr_reg_write demo_state 0x1009 5 = demo_state \<and>
   pvr_reg_read demo_state 0x1009 = (0xFFFFFFFF, demo_state) \<and>
   pvr_3d_write demo_state 0x1009 5 = demo_state \<and>
   pvr_3d_read demo_state 0x1009 = (0xFFFFFFFF, demo_state)"
proof -
  have h: "(0x1009 :: u32) AND 3 \<noteq> 0" by simp
  from unaligned_access_rejected [OF h] h show ?thesis by blast
qed

section \<open>Depth test of the rasteriser\<close>






text \<open>
  The polygon \<open>z_demo_polygon\<close> is what the vertex commands \<open>0x80000000\<close>, \<open>0x800000A0\<close>,
  \<open>0x80028000\<close> assemble on the 64 by 64 display when the Z-buffer flag is set in the
  polygon control register.
\<close>

lemma z_demo_polygon_assembled:
  "assembled_polygon (queue3 (demo_state\<lparr>poly_control := 1\<rparr>) 0x80000000 0x800000A0 0x80028000)
     0x80000000 0x800000A0 0x80028000 = z_demo_polygon"
  by (simp add: assembled_polygon_def Let_def vertex_of_command_def queue3_fields
        demo_state_fields u2f_def zero_vertex_def zero_polygon_def z_demo_polygon_def
        drop_bit_eq_div f2u32_def f2i_def floor_half_sum [simplified])






section \<open>Render start and completion timer\<close>





























lemma low_bits_kept:
  "(x AND NOT 16) AND 1 = x AND (1 :: u32)" "(x AND NOT 16) AND 2 = x AND (2 :: u32)"
  "(x OR 8) AND 1 = x AND (1 :: u32)" "(x OR 8) AND 2 = x AND (2 :: u32)"
  "(x OR 16) AND 1 = x AND (1 :: u32)" "(x OR 16) AND 2 = x AND (2 :: u32)"
  by (simp_all add: and.assoc bit.conj_disj_distrib2)

lemma fifo_advance_low_bits:
  "status_reg (fifo_advance s) AND 1 = status_reg s AND 1"
  "status_reg (fifo_advance s) AND 2 = status_reg s AND 2"
  by (simp_all add: fifo_advance_def Let_def low_bits_kept [simplified])















section \<open>The COLOR data register\<close>










lemma set_poly_fields:
  "vertex_buffer (set_poly i v s) = vertex_buffer s"
  "current_vertex (set_poly i v s) = current_vertex s"
  "polygon_buffer (set_poly i v s) = polygon_buffer s"
  "status_reg (set_poly i v s) = status_reg s"
  "fifo (set_poly i v s) = fifo s"
  "fifo_entries (set_poly i v s) = fifo_entries s"
  "fifo_read_ptr (set_poly i v s) = fifo_read_ptr s"
  "fifo_write_ptr (set_poly i v s) = fifo_write_ptr s"
  "poly (registers (set_poly i v s)) i = v"
  by (simp_all add: set_poly_def)

lemma set_poly_idle: "fifo_idle (set_poly i v s) = fifo_idle s"
  by (simp add: fifo_idle_def set_poly_fields)





subsection \<open>A write of the COLOR register that drains a pending colour command\<close>







lemma fifo_advance_write_ptr: "fifo_write_ptr (fifo_advance s) = fifo_write_ptr s"
  by (simp add: fifo_advance_def Let_def)




















section \<open>A full polygon buffer\<close>

lemma poly_vertex_write:
  "pvr_reg_write s 0x1008 v = pvr_3d_process_command (set_poly (PVR_POLY_VERTEX div 4) v s) 0x01 v"
  by (simp add: pvr_reg_write_def reg_write_poly_def Let_def drop_bit_eq_div)

lemma set_poly_num_polygons: "num_polygons (set_poly i v s) = num_polygons s"
  by (simp add: set_poly_def)

text \<open>A write to the VERTEX register on an idle FIFO is processed at once.\<close>

lemma vertex_write_idle:
  assumes "fifo_idle s"
  shows "fifo_idle (pvr_reg_write s 0x1008 v)"
    and "current_vertex s + 1 < 3 \<Longrightarrow>
           current_vertex (pvr_reg_write s 0x1008 v) = current_vertex s + 1 \<and>
           num_polygons (pvr_reg_write s 0x1008 v) = num_polygons s \<and>
           polygon_buffer (pvr_reg_write s 0x1008 v) = polygon_buffer s"
    and "\<not> current_vertex s + 1 < 3 \<Longrightarrow> current_vertex (pvr_reg_write s 0x1008 v) = 0"
    and "\<not> current_vertex s + 1 < 3 \<Longrightarrow> num_polygons s \<ge> PVR_MAX_POLYGONS \<Longrightarrow>
           num_polygons (pvr_reg_write s 0x1008 v) = num_polygons s \<and>
           polygon_buffer (pvr_reg_write s 0x1008 v) = polygon_buffer s"
    and "\<not> current_vertex s + 1 < 3 \<Longrightarrow> \<not> num_polygons s \<ge> PVR_MAX_POLYGONS \<Longrightarrow>
           num_polygons (pvr_reg_write s 0x1008 v) = num_polygons s + 1"
proof -
  let ?p = "set_poly 2 v s"
  let ?e = "enqueue_idle ?p 0x01 v"
  have i2: "PVR_POLY_VERTEX div 4 = 2" by simp
  have idle: "fifo_idle ?p" unfolding set_poly_idle by (rule assms)
  have w: "pvr_reg_write s 0x1008 v = fifo_advance (fifo_dispatch ?e 0x01 v)"
    unfolding poly_vertex_write i2 by (rule process_command_idle [OF idle])
  have s: "fifo_entries s = 0" "fifo_read_ptr s = fifo_write_ptr s" "status_reg s AND 1 = 0"
    using assms by (simp_all add: fifo_idle_def)
  have e: "fifo_entries ?e = 1" "fifo_read_ptr ?e = fifo_read_ptr s"
    "fifo_write_ptr ?e = c_mod (fifo_write_ptr s + 1) PVR_FIFO_SIZE"
    "status_reg ?e AND 1 = 0" "current_vertex ?e = current_vertex s"
    "num_polygons ?e = num_polygons s" "polygon_buffer ?e = polygon_buffer s"
    by (simp_all add: enqueue_idle_def set_poly_fields set_poly_num_polygons
          running_bit_kept_simp s)
  show "fifo_idle (pvr_reg_write s 0x1008 v)"
    unfolding fifo_idle_def w fifo_advance_entries fifo_advance_fields fifo_advance_write_ptr
      fifo_advance_low_bits PVR_3D_STAT_RUNNING_def fifo_dispatch_status
    by (simp add: fifo_dispatch_fields e s)
  {
    assume o: "current_vertex s + 1 < 3"
    then have "current_vertex ?e + 1 < 3" by (simp add: e)
    note d = dispatch_vertex_open [OF this]
    show "current_vertex (pvr_reg_write s 0x1008 v) = current_vertex s + 1 \<and>
           num_polygons (pvr_reg_write s 0x1008 v) = num_polygons s \<and>
           polygon_buffer (pvr_reg_write s 0x1008 v) = polygon_buffer s"
      unfolding w fifo_advance_fields d by (simp add: e)
  }
  {
    assume c: "\<not> current_vertex s + 1 < 3"
    then have "\<not> current_vertex ?e + 1 < 3" by (simp add: e)
    note d = dispatch_vertex_close [OF this]
    let ?u = "?e\<lparr>vertex_buffer := (vertex_buffer ?e)
                (current_vertex ?e := vertex_of_command ?e v (vertex_buffer ?e (current_vertex ?e))),
              current_vertex := current_vertex ?e + 1\<rparr>"
    have nu: "num_polygons ?u = num_polygons s" "polygon_buffer ?u = polygon_buffer s"
      by (simp_all add: e)
    show "current_vertex (pvr_reg_write s 0x1008 v) = 0"
      unfolding w fifo_advance_fields d by simp
    {
      assume "num_polygons s \<ge> PVR_MAX_POLYGONS"
      then have "num_polygons ?u \<ge> PVR_MAX_POLYGONS" unfolding nu .
      note f = setup_polygon_full [OF this]
      show "num_polygons (pvr_reg_write s 0x1008 v) = num_polygons s \<and>
           polygon_buffer (pvr_reg_write s 0x1008 v) = polygon_buffer s"
        unfolding w fifo_advance_fields d f by (simp add: e)
    }
    {
      assume "\<not> num_polygons s \<ge> PVR_MAX_POLYGONS"
      then have "\<not> num_polygons ?u \<ge> PVR_MAX_POLYGONS" unfolding nu .
      note f = setup_polygon_new(1) [OF this]
      show "num_polygons (pvr_reg_write s 0x1008 v) = num_polygons s + 1"
        unfolding w fifo_advance_fields d using f by (simp add: e)
    }
  }
qed

lemma triangle_write_idle:
  assumes "fifo_idle s" and "current_vertex s = 0"
  shows "fifo_idle (triangle_write s)"
    and "current_vertex (triangle_write s) = 0"
    and "num_polygons s \<ge> PVR_MAX_POLYGONS \<Longrightarrow>
           num_polygons (triangle_write s) = num_polygons s \<and>
           polygon_buffer (triangle_write s) = polygon_buffer s"
    and "\<not> num_polygons s \<ge> PVR_MAX_POLYGONS \<Longrightarrow>
           num_polygons (triangle_write s) = num_polygons s + 1"
proof -
  let ?a = "pvr_reg_write s 0x1008 0"
  let ?b = "pvr_reg_write ?a 0x1008 0"
  have a: "fifo_idle ?a" "current_vertex ?a = 1" "num_polygons ?a = num_polygons s"
    "polygon_buffer ?a = polygon_buffer s"
    using vertex_write_idle(1,2) [OF assms(1), of 0] assms(2) by simp_all
  have b: "fifo_idle ?b" "current_vertex ?b = 2" "num_polygons ?b = num_polygons s"
    "polygon_buffer ?b = polygon_buffer s"
    using vertex_write_idle(1,2) [OF a(1), of 0] a(2,3,4) by simp_all
  have c: "\<not> current_vertex ?b + 1 < 3" by (simp add: b)
  show "fifo_idle (triangle_write s)"
    unfolding triangle_write_def by (rule vertex_write_idle(1) [OF b(1)])
  show "current_vertex (triangle_write s) = 0"
    unfolding triangle_write_def by (rule vertex_write_idle(3) [OF b(1) c])
  show "num_polygons s \<ge> PVR_MAX_POLYGONS \<Longrightarrow>
           num_polygons (triangle_write s) = num_polygons s \<and>
           polygon_buffer (triangle_write s) = polygon_buffer s"
    unfolding triangle_write_def using vertex_write_idle(4) [OF b(1) c, of 0] b(3,4) by simp
  show "\<not> num_polygons s \<ge> PVR_MAX_POLYGONS \<Longrightarrow>
           num_polygons (triangle_write s) = num_polygons s + 1"
    unfolding triangle_write_def using vertex_write_idle(5) [OF b(1) c, of 0] b(3) by simp
qed

lemma triangle_writes:
  "fifo_idle s \<Longrightarrow> current_vertex s = 0 \<Longrightarrow> num_polygons s + int n \<le> PVR_MAX_POLYGONS \<Longrightarrow>
   fifo_idle ((triangle_write ^^ n) s) \<and> current_vertex ((triangle_write ^^ n) s) = 0 \<and>
   num_polygons ((triangle_write ^^ n) s) = num_polygons s + int n"
proof (induction n)
  case 0
  then show ?case by simp
next
  case (Suc n)
  define u where "u = (triangle_write ^^ n) s"
  have "num_polygons s + int n \<le> PVR_MAX_POLYGONS" using Suc.prems(3) by simp
  from Suc.IH [OF Suc.prems(1,2) this]
  have u: "fifo_idle u" "current_vertex u = 0" "num_polygons u = num_polygons s + int n"
    unfolding u_def by blast+
  have "\<not> num_polygons u \<ge> PVR_MAX_POLYGONS" using Suc.prems(3) u(3) by simp
  from triangle_write_idle(4) [OF u(1,2) this]
  have n: "num_polygons (triangle_write u) = num_polygons s + int (Suc n)" by (simp add: u(3))
  have f: "(triangle_write ^^ Suc n) s = triangle_write u" by (simp add: u_def)
  show ?case
    unfolding f using triangle_write_idle(1,2) [OF u(1,2)] n by blast
qed

lemma full_demo_fields:
  "fifo_idle full_demo" "current_vertex full_demo = 0" "num_polygons full_demo = 2048"
proof -
  have i: "fifo_idle demo_state" by (simp add: fifo_idle_def demo_state_fields)
  have c: "current_vertex demo_state = 0" by (rule demo_state_fields)
  have n: "num_polygons demo_state + int 2048 \<le> PVR_MAX_POLYGONS"
    by (simp add: demo_state_fields)
  note t = triangle_writes [OF i c n, folded full_demo_def]
  show "fifo_idle full_demo" "current_vertex full_demo = 0" "num_polygons full_demo = 2048"
    using t by (simp_all add: demo_state_fields)
qed

text \<open>
  With 2048 polygons in the buffer, the three vertex commands of one more triangle are
  processed and produce no polygon.
\<close>

theorem three_vertices_full_buffer_counterexample:
  "fifo_idle full_demo \<and> current_vertex full_demo = 0 \<and> num_polygons full_demo = 2048 \<and>
   num_polygons (triangle_write full_demo) = 2048 \<and>
   polygon_buffer (triangle_write full_demo) = polygon_buffer full_demo \<and>
   current_vertex (triangle_write full_demo) = 0"
proof -
  have "num_polygons full_demo \<ge> PVR_MAX_POLYGONS" by (simp add: full_demo_fields)
  note t = triangle_write_idle(3) [OF full_demo_fields(1,2) this]
  have 1: "num_polygons (triangle_write full_demo) = 2048"
    using t by (simp add: full_demo_fields)
  show ?thesis
    by (intro conjI full_demo_fields 1 conjunct2 [OF t]
          triangle_write_idle(2) [OF full_demo_fields(1,2)])
qed

end
